theory Spec2Isabelle
  imports Main "HOL-Library.Word"
begin

unbundle bit_operations_syntax

section \<open>Data model of the dependency core (dart\_tasking\_datadeps.c)\<close>

text \<open>
  Pointers to tasks are addresses; the null pointer is the address 0. The task heap maps
  every address to the task record stored there, and a pointer that the code dereferences
  is taken to be valid. Mutexes are not modelled: every function is embedded as the
  sequential run of its body, as one thread executes it. Log and diagnostic output
  (\<open>DART_LOG_*\<close>, \<open>printf\<close>) is left out.
\<close>

type_synonym taskref = nat

definition NULL :: taskref where
  "NULL = 0"

definition DART_DEPHASH_SIZE :: nat where
  "DART_DEPHASH_SIZE = 1023"

datatype dart_ret_t = DART_OK | DART_ERR_INVAL

text \<open>A failed \<open>DART_ASSERT\<close> / \<open>DART_ASSERT_MSG\<close> ends the run (a fatal error).\<close>

datatype abort = Assertion_failed

datatype dart_task_deptype =
    DART_DEP_IN | DART_DEP_OUT | DART_DEP_INOUT | DART_DEP_DIRECT
  | DART_DEP_COPYIN | DART_DEP_DELAYED_IN | DART_DEP_IGNORE

text \<open>
  Modelled from the spec: the task states. The enumeration \<open>dart_task_state_t\<close> is declared
  in dart\_tasking\_priv.h, which is not among the sources; the source names
  \<open>DART_TASK_ROOT\<close>, \<open>DART_TASK_CREATED\<close> and \<open>DART_TASK_CANCELLED\<close>, the spec the others.
  The macro \<open>IS_ACTIVE_TASK\<close> of the same header is a parameter \<open>act\<close> of every function
  that uses it: a predicate on the state of a task.
\<close>

datatype dart_task_state =
    DART_TASK_ROOT | DART_TASK_CREATED | DART_TASK_QUEUED | DART_TASK_RUNNING
  | DART_TASK_FINISHED | DART_TASK_CANCELLED

text \<open>
  The global pointer: a 24-bit unit (a signed bit-field), 8 bits of flags, signed 16-bit
  segment and team ids and the 64-bit union \<open>addr_or_offs\<close> of an offset and an absolute
  address.
\<close>

record dart_gptr =
  unitid :: "24 word"
  flags :: "8 word"
  segid :: "16 word"
  teamid :: "16 word"
  addr :: "64 word"

record dart_task_dep =
  dtype :: dart_task_deptype
  gptr :: dart_gptr
  copyin_dest :: "64 word"
  dphase :: int

text \<open>
  A record of the dependency hash. The \<open>next\<close> pointer is the tail of the list the record
  is in; \<open>task\<close> is the union \<open>taskref\<close> of a local and a remote task pointer.
\<close>

record dart_dephash_elem =
  taskdep :: dart_task_dep
  task :: taskref
  origin :: int

record dart_task =
  parent :: taskref
  phase :: int
  state :: dart_task_state
  unresolved_deps :: "32 word"
  unresolved_remote_deps :: "32 word"
  successor :: "taskref list"
  remote_successor :: "dart_dephash_elem list"
  local_deps :: "(nat \<Rightarrow> dart_dephash_elem list) option"

text \<open>
  The calls into the transport layer and the worker pool are recorded, in order, as events:
  \<open>dart_tasking_remote_release(origin, task, dep)\<close>,
  \<open>dart_tasking_remote_direct_taskdep(target, local_task, remote_task)\<close>,
  \<open>dart__tasking__enqueue_runnable(task)\<close> and
  \<open>dart_tasking_copyin_create_task(dep, dest_gptr, task)\<close>.
\<close>

datatype event =
    Remote_release int taskref dart_task_dep
  | Remote_direct_taskdep int taskref taskref
  | Enqueue_runnable taskref
  | Copyin_create_task dart_task_dep dart_gptr taskref

record dart_state =
  tasks :: "taskref \<Rightarrow> dart_task"
  freelist_head :: "dart_dephash_elem list"
  unhandled_remote_deps :: "dart_dephash_elem list"
  remote_blocked_tasks :: "taskref list"
  myguid :: int
  current_task :: taskref
  events :: "event list"

definition IS_OUT_DEP :: "dart_task_dep \<Rightarrow> bool" where
  "IS_OUT_DEP d \<longleftrightarrow> dtype d = DART_DEP_OUT \<or> dtype d = DART_DEP_INOUT"

definition DEP_ADDR :: "dart_task_dep \<Rightarrow> 64 word" where
  "DEP_ADDR dep = addr (gptr dep)"

definition DEP_ADDR_EQ :: "dart_task_dep \<Rightarrow> dart_task_dep \<Rightarrow> bool" where
  "DEP_ADDR_EQ dep1 dep2 \<longleftrightarrow> DEP_ADDR dep1 = DEP_ADDR dep2"

text \<open>
  \<open>hash_gptr\<close>: the segment id is widened to 32 bits (sign-extended from \<open>int16_t\<close>) and
  shifted within 32 bits; the unit id, a signed bit-field, is widened to 64 bits
  (sign-extended) before its shift.
\<close>

definition hash_gptr :: "dart_gptr \<Rightarrow> nat" where
  "hash_gptr g =
     (let segid32 = (scast (segid g) :: 32 word);
          hash0 = addr g;
          unitid64 = (scast (unitid g) :: 64 word);
          hash1 = drop_bit 2 hash0;
          hash2 = hash1 XOR ucast (push_bit 16 segid32);
          hash3 = hash2 XOR push_bit 32 unitid64
      in unat hash3 mod DART_DEPHASH_SIZE)"

text \<open>Updating one task of the heap (\<open>task->field = ...\<close>).\<close>

definition upd_task :: "taskref \<Rightarrow> (dart_task \<Rightarrow> dart_task) \<Rightarrow> dart_state \<Rightarrow> dart_state" where
  "upd_task t f s = s\<lparr>tasks := (tasks s)(t := f (tasks s t))\<rparr>"

definition emit :: "event \<Rightarrow> dart_state \<Rightarrow> dart_state" where
  "emit e s = s\<lparr>events := events s @ [e]\<rparr>"

subsection \<open>The pool of records\<close>

text \<open>A record cleared by \<open>memset\<close> or fresh from \<open>calloc\<close>: every field is zero.\<close>

definition zero_gptr :: dart_gptr where
  "zero_gptr = \<lparr>unitid = 0, flags = 0, segid = 0, teamid = 0, addr = 0\<rparr>"

definition zero_elem :: dart_dephash_elem where
  "zero_elem =
     \<lparr>taskdep = \<lparr>dtype = DART_DEP_IN, gptr = zero_gptr, copyin_dest = 0, dphase = 0\<rparr>,
      task = NULL, origin = 0\<rparr>"

definition dephash_allocate_elem ::
  "dart_task_dep \<Rightarrow> taskref \<Rightarrow> int \<Rightarrow> dart_state \<Rightarrow> abort + (dart_dephash_elem \<times> dart_state)" where
  "dephash_allocate_elem dep tr orig s =
     (let (elem, s1) = (case freelist_head s of
                          [] \<Rightarrow> (zero_elem, s)
                        | e # rest \<Rightarrow> (e, s\<lparr>freelist_head := rest\<rparr>))
      in if tr = NULL then Inl Assertion_failed
         else if task elem \<noteq> NULL then Inl Assertion_failed
         else Inr (elem\<lparr>task := tr, taskdep := dep, origin := orig\<rparr>, s1))"

definition dephash_recycle_elem :: "dart_dephash_elem \<Rightarrow> dart_state \<Rightarrow> dart_state" where
  "dephash_recycle_elem elem s = s\<lparr>freelist_head := zero_elem # freelist_head s\<rparr>"

fun free_dephash_list :: "dart_dephash_elem list \<Rightarrow> dart_state \<Rightarrow> dart_state" where
  "free_dephash_list [] s = s"
| "free_dephash_list (elem # tmp) s = free_dephash_list tmp (dephash_recycle_elem elem s)"

subsection \<open>Reset\<close>

definition dart_tasking_datadeps_reset :: "taskref \<Rightarrow> dart_state \<Rightarrow> dart_ret_t \<times> dart_state" where
  "dart_tasking_datadeps_reset t s =
     (if t = NULL \<or> local_deps (tasks s t) = None then (DART_OK, s)
      else
        let tbl = the (local_deps (tasks s t));
            s1 = fold (\<lambda>i. free_dephash_list (tbl i)) [0..<DART_DEPHASH_SIZE] s;
            s2 = upd_task t (\<lambda>x. x\<lparr>local_deps := None\<rparr>) s1;
            s3 = free_dephash_list (remote_successor (tasks s2 t)) s2;
            s4 = upd_task t (\<lambda>x. x\<lparr>remote_successor := [],
                                     unresolved_deps := 0,
                                     unresolved_remote_deps := 0\<rparr>) s3
        in (DART_OK, s4))"

subsection \<open>Task lists\<close>

text \<open>
  Modelled from the spec: the task list of dart\_tasking\_tasklist.h (not among the sources),
  a singly linked list of task pointers: \<open>prepend\<close> pushes at the head, \<open>pop\<close> takes the
  head and yields the null pointer on the empty list, \<open>contains\<close> is membership.
\<close>

definition dart_tasking_tasklist_prepend :: "taskref list \<Rightarrow> taskref \<Rightarrow> taskref list" where
  "dart_tasking_tasklist_prepend lst t = t # lst"

definition dart_tasking_tasklist_contains :: "taskref list \<Rightarrow> taskref \<Rightarrow> bool" where
  "dart_tasking_tasklist_contains lst t \<longleftrightarrow> t \<in> set lst"

definition dart_tasking_tasklist_pop :: "taskref list \<Rightarrow> taskref \<times> taskref list" where
  "dart_tasking_tasklist_pop lst = (case lst of [] \<Rightarrow> (NULL, []) | t # rest \<Rightarrow> (t, rest))"

subsection \<open>Adding a record to the table of the parent\<close>

definition dephash_require_alloc :: "taskref \<Rightarrow> dart_state \<Rightarrow> dart_state" where
  "dephash_require_alloc t s =
     (if t \<noteq> NULL \<and> local_deps (tasks s t) = None
      then upd_task t (\<lambda>x. x\<lparr>local_deps := Some (\<lambda>i. [])\<rparr>) s
      else s)"

text \<open>Writing bucket \<open>slot\<close> of the table of task \<open>p\<close> (\<open>p->local_deps[slot] = ...\<close>).\<close>

definition set_bucket :: "taskref \<Rightarrow> nat \<Rightarrow> dart_dephash_elem list \<Rightarrow> dart_state \<Rightarrow> dart_state" where
  "set_bucket p slot b s =
     upd_task p (\<lambda>x. x\<lparr>local_deps := map_option (\<lambda>tbl. tbl(slot := b)) (local_deps x)\<rparr>) s"

definition get_bucket :: "dart_state \<Rightarrow> taskref \<Rightarrow> nat \<Rightarrow> dart_dephash_elem list" where
  "get_bucket s p slot = (case local_deps (tasks s p) of None \<Rightarrow> [] | Some tbl \<Rightarrow> tbl slot)"

definition dephash_add_local ::
  "dart_task_dep \<Rightarrow> taskref \<Rightarrow> dart_state \<Rightarrow> abort + (dart_ret_t \<times> dart_state)" where
  "dephash_add_local dep t s =
     (case dephash_allocate_elem dep t (myguid s) s of
        Inl a \<Rightarrow> Inl a
      | Inr (elem, s1) \<Rightarrow>
          let p = parent (tasks s1 t);
              s2 = dephash_require_alloc p s1;
              slot = hash_gptr (gptr dep)
          in Inr (DART_OK, set_bucket p slot (elem # get_bucket s2 p slot) s2))"

subsection \<open>Deferred remote dependencies\<close>

text \<open>
  The walk over one bucket for the pending record \<open>rdep\<close>: it yields the candidate and the
  direct-dependency candidate (the null pointer when there is none). The walk only locks,
  reads and unlocks tasks, so it reads the heap \<open>ts\<close> and changes nothing.
\<close>

fun deferred_remote_scan ::
  "(dart_task_state \<Rightarrow> bool) \<Rightarrow> (taskref \<Rightarrow> dart_task) \<Rightarrow> dart_dephash_elem \<Rightarrow>
   dart_dephash_elem list \<Rightarrow> taskref \<Rightarrow> taskref \<Rightarrow> taskref \<times> taskref" where
  "deferred_remote_scan act ts rdep [] candidate direct_dep_candidate =
     (candidate, direct_dep_candidate)"
| "deferred_remote_scan act ts rdep (loc # rest) candidate direct_dep_candidate =
     (let local_task = task loc in
      if local_task \<noteq> candidate \<and> IS_OUT_DEP (taskdep loc) \<and>
         DEP_ADDR_EQ (taskdep loc) (taskdep rdep)
      then
        if \<not> act (state (ts local_task)) then (candidate, direct_dep_candidate)
        else if dphase (taskdep loc) < dphase (taskdep rdep)
          then (local_task, direct_dep_candidate)
        else if dphase (taskdep loc) \<ge> dphase (taskdep rdep)
          then deferred_remote_scan act ts rdep rest candidate
                 (if direct_dep_candidate = NULL \<or>
                     phase (ts direct_dep_candidate) > dphase (taskdep loc)
                  then local_task else direct_dep_candidate)
        else deferred_remote_scan act ts rdep rest candidate direct_dep_candidate
      else deferred_remote_scan act ts rdep rest candidate direct_dep_candidate)"

text \<open>The body of the loop over \<open>unhandled_remote_deps\<close>, for one pending record.\<close>

definition handle_defered_remote_record ::
  "(dart_task_state \<Rightarrow> bool) \<Rightarrow> (nat \<Rightarrow> dart_dephash_elem list) option \<Rightarrow>
   dart_dephash_elem \<Rightarrow> dart_state \<Rightarrow> dart_state" where
  "handle_defered_remote_record act ld rdep s =
     (let (candidate, direct_dep_candidate) =
            (case ld of
               None \<Rightarrow> (NULL, NULL)
             | Some tbl \<Rightarrow>
                 deferred_remote_scan act (tasks s) rdep
                   (tbl (hash_gptr (gptr (taskdep rdep)))) NULL NULL);
          s1 = (if direct_dep_candidate \<noteq> NULL then
                  let sa = emit (Remote_direct_taskdep (origin rdep) direct_dep_candidate
                                   (task rdep)) s;
                      unresolved = unresolved_remote_deps (tasks sa direct_dep_candidate);
                      sb = upd_task direct_dep_candidate
                             (\<lambda>x. x\<lparr>unresolved_remote_deps := unresolved + 1\<rparr>) sa
                  in if unresolved = 0
                     then sb\<lparr>remote_blocked_tasks :=
                               dart_tasking_tasklist_prepend (remote_blocked_tasks sb)
                                 direct_dep_candidate\<rparr>
                     else sb
                else s)
      in if candidate \<noteq> NULL
         then upd_task candidate (\<lambda>x. x\<lparr>remote_successor := rdep # remote_successor x\<rparr>) s1
         else dephash_recycle_elem rdep
                (emit (Remote_release (origin rdep) (task rdep) (taskdep rdep)) s1))"

definition dart_tasking_datadeps_handle_defered_remote ::
  "(dart_task_state \<Rightarrow> bool) \<Rightarrow> dart_state \<Rightarrow> dart_ret_t \<times> dart_state" where
  "dart_tasking_datadeps_handle_defered_remote act s =
     (let ld = local_deps (tasks s (current_task s));
          s1 = fold (handle_defered_remote_record act ld) (unhandled_remote_deps s) s
      in (DART_OK, s1\<lparr>unhandled_remote_deps := []\<rparr>))"

subsection \<open>Copy-in dependencies\<close>

text \<open>
  The walk of \<open>dart_tasking_datadeps_handle_copyin\<close> over the bucket of the destination:
  the record whose task does the copy in the same phase, if the walk reaches one.
\<close>

fun copyin_scan :: "dart_task_dep \<Rightarrow> dart_dephash_elem list \<Rightarrow> dart_dephash_elem option" where
  "copyin_scan dep [] = None"
| "copyin_scan dep (elem # rest) =
     (if addr (gptr (taskdep elem)) = copyin_dest dep then
        if dphase (taskdep elem) < dphase dep then None
        else if IS_OUT_DEP (taskdep elem) \<and> dphase dep = dphase (taskdep elem) then Some elem
        else copyin_scan dep rest
      else copyin_scan dep rest)"

text \<open>
  The \<open>do ... while (0 == iter++)\<close> loop. \<open>create\<close> is the effect of the collaborator
  \<open>dart_tasking_copyin_create_task\<close> on the state (not among the sources); \<open>uninit\<close> is
  the content of the local variable \<open>in_dep\<close> before its three assignments.
\<close>

function handle_copyin_loop ::
  "(dart_task_dep \<Rightarrow> dart_gptr \<Rightarrow> taskref \<Rightarrow> dart_state \<Rightarrow> dart_state) \<Rightarrow> dart_task_dep \<Rightarrow>
   dart_task_dep \<Rightarrow> taskref \<Rightarrow> dart_gptr \<Rightarrow> nat \<Rightarrow> nat \<Rightarrow> dart_state \<Rightarrow>
   abort + (dart_ret_t \<times> dart_state)" where
  "handle_copyin_loop create uninit dep t dest_gptr slot iter s =
     (case (case local_deps (tasks s (parent (tasks s t))) of
              None \<Rightarrow> None
            | Some tbl \<Rightarrow> copyin_scan dep (tbl slot)) of
        Some elem \<Rightarrow>
          let elem_task = task elem;
              s1 = upd_task t (\<lambda>x. x\<lparr>unresolved_deps := unresolved_deps x + 1\<rparr>) s;
              s2 = upd_task elem_task
                     (\<lambda>x. x\<lparr>successor := dart_tasking_tasklist_prepend (successor x) t\<rparr>) s1;
              in_dep = uninit\<lparr>dtype := DART_DEP_IN, gptr := dest_gptr, dphase := dphase dep\<rparr>
          in (case dephash_add_local in_dep t s2 of
                Inl a \<Rightarrow> Inl a
              | Inr (r, s3) \<Rightarrow> Inr (DART_OK, s3))
      | None \<Rightarrow>
          if iter > 0 \<and> \<not> (iter \<noteq> 0) then Inl Assertion_failed
          else
            let s1 = create dep dest_gptr t (emit (Copyin_create_task dep dest_gptr t) s)
            in if 0 = iter
               then handle_copyin_loop create uninit dep t dest_gptr slot (iter + 1) s1
               else Inr (DART_OK, s1))"
  by pat_completeness auto
termination
  by (relation "measure (\<lambda>(create, uninit, dep, t, dest_gptr, slot, iter, s). 1 - iter)") auto

declare handle_copyin_loop.simps [simp del]

text \<open>
  \<open>local_segid\<close> is the constant \<open>DART_TASKING_DATADEPS_LOCAL_SEGID\<close> (its definition is not
  among the sources).
\<close>

definition dart_tasking_datadeps_handle_copyin ::
  "16 word \<Rightarrow> (dart_task_dep \<Rightarrow> dart_gptr \<Rightarrow> taskref \<Rightarrow> dart_state \<Rightarrow> dart_state) \<Rightarrow>
   dart_task_dep \<Rightarrow> dart_task_dep \<Rightarrow> taskref \<Rightarrow> dart_state \<Rightarrow> abort + (dart_ret_t \<times> dart_state)" where
  "dart_tasking_datadeps_handle_copyin local_segid create uninit dep t s =
     (let dest_gptr = \<lparr>unitid = of_int (myguid s), flags = 0, segid = local_segid,
                       teamid = 0, addr = copyin_dest dep\<rparr>;
          slot = hash_gptr dest_gptr
      in handle_copyin_loop create uninit dep t dest_gptr slot 0 s)"

subsection \<open>Matching a local dependency\<close>

text \<open>
  The walk of \<open>dart_tasking_datadeps_match_local_datadep\<close> over the bucket \<open>slot\<close> of the
  parent; \<open>i\<close> is the position of the record at hand in that bucket.
\<close>

fun match_local_walk ::
  "(dart_task_state \<Rightarrow> bool) \<Rightarrow> dart_task_dep \<Rightarrow> taskref \<Rightarrow> nat \<Rightarrow>
   dart_dephash_elem list \<Rightarrow> nat \<Rightarrow> dart_state \<Rightarrow> dart_state" where
  "match_local_walk act dep t slot [] i s = s"
| "match_local_walk act dep t slot (elem # rest) i s =
     (if DEP_ADDR_EQ (taskdep elem) dep then
        let elem_task = task elem in
        if elem_task = t then
          (if dtype (taskdep elem) = DART_DEP_IN \<and> IS_OUT_DEP dep
           then set_bucket (parent (tasks s t)) slot
                  ((get_bucket s (parent (tasks s t)) slot)
                     [i := elem\<lparr>taskdep := (taskdep elem)\<lparr>dtype := DART_DEP_INOUT\<rparr>\<rparr>]) s
           else s)
        else
          let s1 = (if IS_OUT_DEP dep \<or> (dtype dep = DART_DEP_IN \<and> IS_OUT_DEP (taskdep elem))
                    then
                      if act (state (tasks s elem_task)) then
                        if dart_tasking_tasklist_contains (successor (tasks s elem_task)) t
                        then s
                        else
                          upd_task elem_task
                            (\<lambda>x. x\<lparr>successor := dart_tasking_tasklist_prepend (successor x) t\<rparr>)
                            (upd_task t (\<lambda>x. x\<lparr>unresolved_deps := unresolved_deps x + 1\<rparr>) s)
                      else s
                    else s)
          in if IS_OUT_DEP (taskdep elem) then s1
             else match_local_walk act dep t slot rest (Suc i) s1
      else match_local_walk act dep t slot rest (Suc i) s)"

definition dart_tasking_datadeps_match_local_datadep ::
  "(dart_task_state \<Rightarrow> bool) \<Rightarrow> dart_task_dep \<Rightarrow> taskref \<Rightarrow> dart_state \<Rightarrow> dart_ret_t \<times> dart_state" where
  "dart_tasking_datadeps_match_local_datadep act dep t s =
     (let slot = hash_gptr (gptr dep) in
      case local_deps (tasks s (parent (tasks s t))) of
        None \<Rightarrow> (DART_OK, s)
      | Some tbl \<Rightarrow> (DART_OK, match_local_walk act dep t slot (tbl slot) 0 s))"

subsection \<open>Matching a delayed local dependency\<close>

text \<open>
  The walk of \<open>dart_tasking_datadeps_match_delayed_local_datadep\<close>; \<open>i\<close> is the position of
  the record at hand (\<open>prev\<close> is the record before it, null when \<open>i = 0\<close>). The walk ends
  the run on a failed assertion, or leaves the loop (with the state reached).
\<close>

fun match_delayed_walk ::
  "(dart_task_state \<Rightarrow> bool) \<Rightarrow> dart_task_dep \<Rightarrow> taskref \<Rightarrow> nat \<Rightarrow>
   dart_dephash_elem list \<Rightarrow> nat \<Rightarrow> taskref \<Rightarrow> dart_state \<Rightarrow> abort + dart_state" where
  "match_delayed_walk act dep t slot [] i next_out_task s = Inr s"
| "match_delayed_walk act dep t slot (elem # rest) i next_out_task s =
     (if dphase (taskdep elem) > dphase dep then
        match_delayed_walk act dep t slot rest (Suc i)
          (if DEP_ADDR_EQ (taskdep elem) dep \<and> IS_OUT_DEP (taskdep elem)
           then task elem else next_out_task) s
      else if DEP_ADDR_EQ (taskdep elem) dep then
        let elem_task = task elem in
        if \<not> elem_task \<noteq> t then Inl Assertion_failed
        else if IS_OUT_DEP (taskdep elem) then
          let s1 = (if act (state (tasks s elem_task)) then
                      upd_task elem_task
                        (\<lambda>x. x\<lparr>successor := dart_tasking_tasklist_prepend (successor x) t\<rparr>)
                        (upd_task t (\<lambda>x. x\<lparr>unresolved_deps := unresolved_deps x + 1\<rparr>) s)
                    else s)
          in if next_out_task \<noteq> NULL then
               if \<not> act (state (tasks s1 next_out_task)) then Inl Assertion_failed
               else
                 Inr (upd_task t
                        (\<lambda>x. x\<lparr>successor :=
                                 dart_tasking_tasklist_prepend (successor x) next_out_task\<rparr>)
                        (upd_task next_out_task
                           (\<lambda>x. x\<lparr>unresolved_deps := unresolved_deps x + 1\<rparr>) s1))
             else
               (case dephash_allocate_elem dep t (myguid s1) s1 of
                  Inl a \<Rightarrow> Inl a
                | Inr (new_elem, s2) \<Rightarrow>
                    let p = parent (tasks s2 t);
                        s3 = dephash_require_alloc p s2;
                        b = get_bucket s3 p slot
                    in Inr (set_bucket p slot (take i b @ new_elem # drop i b) s3))
        else match_delayed_walk act dep t slot rest (Suc i) next_out_task s
      else match_delayed_walk act dep t slot rest (Suc i) next_out_task s)"

definition dart_tasking_datadeps_match_delayed_local_datadep ::
  "(dart_task_state \<Rightarrow> bool) \<Rightarrow> dart_task_dep \<Rightarrow> taskref \<Rightarrow> dart_state \<Rightarrow>
   abort + (dart_ret_t \<times> dart_state)" where
  "dart_tasking_datadeps_match_delayed_local_datadep act dep t s =
     (let slot = hash_gptr (gptr dep) in
      case local_deps (tasks s (parent (tasks s t))) of
        None \<Rightarrow> Inr (DART_OK, s)
      | Some tbl \<Rightarrow>
          (case match_delayed_walk act dep t slot (tbl slot) 0 NULL s of
             Inl a \<Rightarrow> Inl a
           | Inr s1 \<Rightarrow> Inr (DART_OK, s1)))"

subsection \<open>A direct dependency of a remote task\<close>

text \<open>
  \<open>gptr_null\<close> is the constant \<open>DART_GPTR_NULL\<close> (not among the sources); \<open>uninit\<close> is the
  content of the local variable \<open>dep\<close> before its two assignments.
\<close>

definition dart_tasking_datadeps_handle_remote_direct ::
  "(dart_task_state \<Rightarrow> bool) \<Rightarrow> dart_gptr \<Rightarrow> dart_task_dep \<Rightarrow> taskref \<Rightarrow> taskref \<Rightarrow> int \<Rightarrow>
   dart_state \<Rightarrow> abort + (dart_ret_t \<times> dart_state)" where
  "dart_tasking_datadeps_handle_remote_direct act gptr_null uninit local_task remote_task orig s =
     (let dep = uninit\<lparr>dtype := DART_DEP_DIRECT, gptr := gptr_null\<rparr> in
      if act (state (tasks s local_task)) \<and> act (state (tasks s local_task)) then
        (case dephash_allocate_elem dep remote_task orig s of
           Inl a \<Rightarrow> Inl a
         | Inr (rs, s1) \<Rightarrow>
             Inr (DART_OK,
                  upd_task local_task (\<lambda>x. x\<lparr>remote_successor := rs # remote_successor x\<rparr>) s1))
      else Inr (DART_OK, emit (Remote_release orig remote_task dep) s))"

subsection \<open>Releasing a finished task\<close>

definition release_local_dep_counter :: "taskref \<Rightarrow> dart_state \<Rightarrow> abort + (bool \<times> dart_state)" where
  "release_local_dep_counter t s =
     (let num_local_deps = unresolved_deps (tasks s t) - 1;
          s1 = upd_task t (\<lambda>x. x\<lparr>unresolved_deps := num_local_deps\<rparr>) s;
          num_remote_deps = unresolved_remote_deps (tasks s1 t)
      in if \<not> (0 \<le> sint num_remote_deps \<and> 0 \<le> sint num_local_deps) then Inl Assertion_failed
         else Inr (num_local_deps = 0 \<and> num_remote_deps = 0, s1))"

fun release_remote_walk :: "dart_dephash_elem list \<Rightarrow> dart_state \<Rightarrow> dart_state" where
  "release_remote_walk [] s = s"
| "release_remote_walk (tmp # rs) s =
     release_remote_walk rs
       (dephash_recycle_elem tmp (emit (Remote_release (origin tmp) (task tmp) (taskdep tmp)) s))"

definition release_remote_dependencies :: "taskref \<Rightarrow> dart_state \<Rightarrow> dart_ret_t \<times> dart_state" where
  "release_remote_dependencies t s =
     (DART_OK, upd_task t (\<lambda>x. x\<lparr>remote_successor := []\<rparr>)
                 (release_remote_walk (remote_successor (tasks s t)) s))"

text \<open>
  The loop over the local successors: each round pops the head of \<open>task->successor\<close> and
  ends when the pop yields the null pointer.
\<close>

function release_successors :: "taskref \<Rightarrow> dart_state \<Rightarrow> abort + dart_state" where
  "release_successors t s =
     (let (succ, rest) = dart_tasking_tasklist_pop (successor (tasks s t));
          s0 = upd_task t (\<lambda>x. x\<lparr>successor := rest\<rparr>) s
      in if succ = NULL then Inr s0
         else
           (case release_local_dep_counter succ s0 of
              Inl a \<Rightarrow> Inl a
            | Inr (runnable, s1) \<Rightarrow>
                release_successors t
                  (if state (tasks s1 succ) = DART_TASK_CREATED \<and> runnable
                   then emit (Enqueue_runnable succ) s1 else s1)))"
  by pat_completeness auto
termination
  by (relation "measure (\<lambda>(t, s). length (successor (tasks s t)))")
     (auto simp: dart_tasking_tasklist_pop_def release_local_dep_counter_def upd_task_def
                 emit_def NULL_def Let_def split: list.splits if_splits)

declare release_successors.simps [simp del]

definition dart_tasking_datadeps_release_local_task ::
  "taskref \<Rightarrow> dart_state \<Rightarrow> abort + (dart_ret_t \<times> dart_state)" where
  "dart_tasking_datadeps_release_local_task t s =
     (let s1 = (if state (tasks s t) \<noteq> DART_TASK_CANCELLED
                then snd (release_remote_dependencies t s) else s)
      in case release_successors t s1 of
           Inl a \<Rightarrow> Inl a
         | Inr s2 \<Rightarrow> Inr (DART_OK, s2))"

section \<open>Notions for stating the properties\<close>

text \<open>
  The walk of \<open>dart_tasking_datadeps_handle_defered_remote\<close> over a bucket, for the
  pending record \<open>rdep\<close>, inspects the records \<open>e\<close> that pass its three tests: the task is
  not the (null) candidate, the dependency is an output, the address is that of \<open>rdep\<close>.
  The walk stops at the first such record whose task is not active or whose phase is
  earlier than that of \<open>rdep\<close>. \<open>satisfier\<close> is the task of that record when it is active,
  and null otherwise; \<open>scanned_writers\<close> are the inspected records before it;
  \<open>direct_candidate\<close> is the second result of the walk; \<open>bucket_of\<close> is the bucket the
  walk reads (empty without a table).
\<close>

definition remote_match :: "dart_dephash_elem \<Rightarrow> dart_dephash_elem \<Rightarrow> bool" where
  "remote_match rdep e \<longleftrightarrow>
     task e \<noteq> NULL \<and> IS_OUT_DEP (taskdep e) \<and> DEP_ADDR_EQ (taskdep e) (taskdep rdep)"

definition scan_stop ::
  "(dart_task_state \<Rightarrow> bool) \<Rightarrow> (taskref \<Rightarrow> dart_task) \<Rightarrow> dart_dephash_elem \<Rightarrow>
   dart_dephash_elem \<Rightarrow> bool" where
  "scan_stop act ts rdep e \<longleftrightarrow>
     remote_match rdep e \<and>
     (\<not> act (state (ts (task e))) \<or> dphase (taskdep e) < dphase (taskdep rdep))"

definition satisfier ::
  "(dart_task_state \<Rightarrow> bool) \<Rightarrow> (taskref \<Rightarrow> dart_task) \<Rightarrow> dart_dephash_elem \<Rightarrow>
   dart_dephash_elem list \<Rightarrow> taskref" where
  "satisfier act ts rdep b =
     (case find (scan_stop act ts rdep) b of
        None \<Rightarrow> NULL
      | Some e \<Rightarrow> if act (state (ts (task e))) then task e else NULL)"


definition bucket_of ::
  "(nat \<Rightarrow> dart_dephash_elem list) option \<Rightarrow> dart_dephash_elem \<Rightarrow> dart_dephash_elem list" where
  "bucket_of ld rdep =
     (case ld of None \<Rightarrow> [] | Some tbl \<Rightarrow> tbl (hash_gptr (gptr (taskdep rdep))))"

definition direct_candidate ::
  "(dart_task_state \<Rightarrow> bool) \<Rightarrow> (taskref \<Rightarrow> dart_task) \<Rightarrow> dart_dephash_elem \<Rightarrow>
   dart_dephash_elem list \<Rightarrow> taskref" where
  "direct_candidate act ts rdep b = snd (deferred_remote_scan act ts rdep b NULL NULL)"


text \<open>
  The walk of \<open>dart_tasking_datadeps_match_local_datadep\<close> over a bucket, for the
  dependency \<open>dep\<close> of the new task \<open>t\<close>, stops at the first record on the same address
  that belongs to \<open>t\<close> itself or holds an output dependency. \<open>linked_records\<close> are the
  records on the same address that the walk compares with \<open>dep\<close>: those before the
  stopping record, and the stopping record unless it is a record of \<open>t\<close>.
  \<open>local_predecessors\<close> are the tasks of those records for which the three tests of the
  walk hold in the heap \<open>ts\<close>: the types of the two dependencies, the task is active, and
  \<open>t\<close> is not among its successors yet.
\<close>

definition local_stop :: "dart_task_dep \<Rightarrow> taskref \<Rightarrow> dart_dephash_elem \<Rightarrow> bool" where
  "local_stop dep t e \<longleftrightarrow>
     DEP_ADDR_EQ (taskdep e) dep \<and> (task e = t \<or> IS_OUT_DEP (taskdep e))"

definition linked_records ::
  "dart_task_dep \<Rightarrow> taskref \<Rightarrow> dart_dephash_elem list \<Rightarrow> dart_dephash_elem list" where
  "linked_records dep t b =
     filter (\<lambda>e. DEP_ADDR_EQ (taskdep e) dep) (takeWhile (\<lambda>e. \<not> local_stop dep t e) b) @
     filter (\<lambda>e. task e \<noteq> t) (take 1 (dropWhile (\<lambda>e. \<not> local_stop dep t e) b))"

definition local_predecessors ::
  "(dart_task_state \<Rightarrow> bool) \<Rightarrow> dart_task_dep \<Rightarrow> taskref \<Rightarrow> (taskref \<Rightarrow> dart_task) \<Rightarrow>
   dart_dephash_elem list \<Rightarrow> taskref set" where
  "local_predecessors act dep t ts b =
     set (map task
            (filter (\<lambda>e. (IS_OUT_DEP dep \<or> (dtype dep = DART_DEP_IN \<and> IS_OUT_DEP (taskdep e))) \<and>
                         act (state (ts (task e))) \<and>
                         t \<notin> set (successor (ts (task e))))
               (linked_records dep t b)))"

text \<open>
  \<open>upgraded_bucket\<close> is the bucket after the walk: the stopping record, when it is an
  input record of \<open>t\<close> itself and \<open>dep\<close> is an output, has become an in-out record.
\<close>

definition upgraded_bucket ::
  "dart_task_dep \<Rightarrow> taskref \<Rightarrow> dart_dephash_elem list \<Rightarrow> dart_dephash_elem list" where
  "upgraded_bucket dep t b =
     takeWhile (\<lambda>e. \<not> local_stop dep t e) b @
     (case dropWhile (\<lambda>e. \<not> local_stop dep t e) b of
        [] \<Rightarrow> []
      | e # rest \<Rightarrow>
          (if task e = t \<and> dtype (taskdep e) = DART_DEP_IN \<and> IS_OUT_DEP dep
           then e\<lparr>taskdep := (taskdep e)\<lparr>dtype := DART_DEP_INOUT\<rparr>\<rparr> else e) # rest)"

text \<open>
  The walk of \<open>dart_tasking_datadeps_match_delayed_local_datadep\<close>, for the delayed
  dependency \<open>dep\<close> of the task \<open>t\<close>: a \<open>later_writer\<close> is an output record on the same
  address with a later phase; the walk passes over a record (\<open>passed_over\<close>) that has a
  later phase, or lies on another address, or is a record of another task that is not an
  output; \<open>next_writer\<close> is the task the walk holds in \<open>next_out_task\<close> after the records
  \<open>pre\<close>: the task of the last later writer among them (null when there is none).
\<close>

definition later_writer :: "dart_task_dep \<Rightarrow> dart_dephash_elem \<Rightarrow> bool" where
  "later_writer dep e \<longleftrightarrow>
     dphase (taskdep e) > dphase dep \<and> DEP_ADDR_EQ (taskdep e) dep \<and> IS_OUT_DEP (taskdep e)"

definition passed_over :: "dart_task_dep \<Rightarrow> taskref \<Rightarrow> dart_dephash_elem \<Rightarrow> bool" where
  "passed_over dep t e \<longleftrightarrow>
     dphase (taskdep e) > dphase dep \<or> \<not> DEP_ADDR_EQ (taskdep e) dep \<or>
     (task e \<noteq> t \<and> \<not> IS_OUT_DEP (taskdep e))"

definition next_writer :: "dart_task_dep \<Rightarrow> dart_dephash_elem list \<Rightarrow> taskref" where
  "next_writer dep pre =
     (case filter (later_writer dep) pre of [] \<Rightarrow> NULL | x # xs \<Rightarrow> task (last (x # xs)))"

section \<open>Example states\<close>

text \<open>
  Concrete states for the examples below: a heap of idle tasks, no pending records, and
  one instance of \<open>IS_ACTIVE_TASK\<close> (created and running tasks are active).
\<close>

definition idle_task :: dart_task where
  "idle_task = \<lparr>parent = NULL, phase = 0, state = DART_TASK_FINISHED, unresolved_deps = 0,
      unresolved_remote_deps = 0, successor = [], remote_successor = [], local_deps = None\<rparr>"

definition empty_state :: dart_state where
  "empty_state = \<lparr>tasks = (\<lambda>a. idle_task), freelist_head = [], unhandled_remote_deps = [],
      remote_blocked_tasks = [], myguid = 0, current_task = 1, events = []\<rparr>"

definition is_active_example :: "dart_task_state \<Rightarrow> bool" where
  "is_active_example st \<longleftrightarrow> st = DART_TASK_CREATED \<or> st = DART_TASK_RUNNING"

definition dep_on :: "dart_task_deptype \<Rightarrow> 64 word \<Rightarrow> int \<Rightarrow> dart_task_dep" where
  "dep_on ty a ph =
     \<lparr>dtype = ty, gptr = \<lparr>unitid = 0, flags = 0, segid = 0, teamid = 0, addr = a\<rparr>,
      copyin_dest = 0, dphase = ph\<rparr>"

text \<open>
  Task 2 without a table of its own, holding one remote successor and non-zero counters;
  and the same task owning a table with one record.
\<close>

definition reset_leaf_state :: dart_state where
  "reset_leaf_state =
     upd_task 2
       (\<lambda>x. x\<lparr>remote_successor := [\<lparr>taskdep = dep_on DART_DEP_IN 64 1, task = 7, origin = 1\<rparr>],
               unresolved_deps := 2, unresolved_remote_deps := 1\<rparr>) empty_state"

definition reset_parent_state :: dart_state where
  "reset_parent_state =
     upd_task 2
       (\<lambda>x. x\<lparr>local_deps :=
                 Some (\<lambda>i. if i = 16
                           then [\<lparr>taskdep = dep_on DART_DEP_OUT 64 1, task = 3, origin = 0\<rparr>]
                           else []),
               remote_successor := [\<lparr>taskdep = dep_on DART_DEP_IN 64 1, task = 7, origin = 1\<rparr>],
               unresolved_deps := 2, unresolved_remote_deps := 1\<rparr>) empty_state"

text \<open>Task 2 has been created and has not run yet.\<close>

definition remote_direct_state :: dart_state where
  "remote_direct_state = upd_task 2 (\<lambda>x. x\<lparr>state := DART_TASK_CREATED\<rparr>) empty_state"






text \<open>
  A copy-in dependency of task 4, submitted in phase 3 under the root task 1, which has no
  table yet; and a collaborator \<open>dart_tasking_copyin_create_task\<close> that installs no
  record.
\<close>

definition copyin_dep :: dart_task_dep where
  "copyin_dep =
     \<lparr>dtype = DART_DEP_COPYIN,
      gptr = \<lparr>unitid = 7, flags = 0, segid = 0, teamid = 0, addr = 128\<rparr>,
      copyin_dest = 64, dphase = 3\<rparr>"

definition copyin_state :: dart_state where
  "copyin_state =
     upd_task 1 (\<lambda>x. x\<lparr>state := DART_TASK_ROOT\<rparr>)
       (upd_task 4 (\<lambda>x. x\<lparr>parent := 1, phase := 3, state := DART_TASK_CREATED\<rparr>) empty_state)"

definition create_nothing ::
  "dart_task_dep \<Rightarrow> dart_gptr \<Rightarrow> taskref \<Rightarrow> dart_state \<Rightarrow> dart_state" where
  "create_nothing dep dest_gptr tr s = s"

definition copyin_dest_gptr :: dart_gptr where
  "copyin_dest_gptr = \<lparr>unitid = 0, flags = 0, segid = 0, teamid = 0, addr = 64\<rparr>"

text \<open>
  Task 2 is running and has the successors 3, 4 and 3 again: task 3 waits for two local
  predecessors, task 4 for one local and one remote predecessor. \<open>release_final\<close> is the
  state after the release of task 2. In \<open>release_blocked_state\<close> task 4 is the only
  successor.
\<close>

definition release_state :: dart_state where
  "release_state =
     upd_task 2 (\<lambda>x. x\<lparr>state := DART_TASK_RUNNING, successor := [3, 4, 3]\<rparr>)
       (upd_task 3 (\<lambda>x. x\<lparr>state := DART_TASK_CREATED, unresolved_deps := 2\<rparr>)
          (upd_task 4 (\<lambda>x. x\<lparr>state := DART_TASK_CREATED, unresolved_deps := 1,
                              unresolved_remote_deps := 1\<rparr>) empty_state))"

definition release_final :: dart_state where
  "release_final =
     emit (Enqueue_runnable 3)
       (upd_task 3 (\<lambda>x. x\<lparr>unresolved_deps := 0\<rparr>)
          (upd_task 4 (\<lambda>x. x\<lparr>unresolved_deps := 0\<rparr>)
             (upd_task 2 (\<lambda>x. x\<lparr>successor := []\<rparr>) release_state)))"

definition release_blocked_state :: dart_state where
  "release_blocked_state =
     upd_task 2 (\<lambda>x. x\<lparr>state := DART_TASK_RUNNING, successor := [4]\<rparr>)
       (upd_task 4 (\<lambda>x. x\<lparr>state := DART_TASK_CREATED, unresolved_deps := 1,
                           unresolved_remote_deps := 1\<rparr>) empty_state)"

text \<open>
  In terms of the state \<open>s\<close> before the loop over the successors \<open>xs\<close>: the successor
  popped in round \<open>i\<close> is in state \<open>DART_TASK_CREATED\<close>, its local counter equals the
  number of times it has been popped up to and including this round, and its remote
  counter is zero.
\<close>

definition released_at :: "dart_state \<Rightarrow> taskref list \<Rightarrow> nat \<Rightarrow> bool" where
  "released_at s xs i \<longleftrightarrow>
     state (tasks s (xs ! i)) = DART_TASK_CREATED \<and>
     unresolved_deps (tasks s (xs ! i)) = of_nat (count_list (take (Suc i) xs) (xs ! i)) \<and>
     unresolved_remote_deps (tasks s (xs ! i)) = 0"

text \<open>
  States for the deferred remote dependencies: the root task 1 is the current task, its
  table holds in bucket 16 the output records \<open>writer t ph\<close> of local tasks on the
  address 64; the pending records \<open>remote_reader ph\<close> are input dependencies of the remote
  task 9 of unit 1 on that address.
\<close>

definition writer :: "taskref \<Rightarrow> int \<Rightarrow> dart_dephash_elem" where
  "writer t ph = \<lparr>taskdep = dep_on DART_DEP_OUT 64 ph, task = t, origin = 0\<rparr>"

definition remote_reader :: "int \<Rightarrow> dart_dephash_elem" where
  "remote_reader ph = \<lparr>taskdep = dep_on DART_DEP_IN 64 ph, task = 9, origin = 1\<rparr>"

definition with_task :: "taskref \<Rightarrow> dart_task_state \<Rightarrow> int \<Rightarrow> dart_state \<Rightarrow> dart_state" where
  "with_task t st ph s = upd_task t (\<lambda>x. x\<lparr>parent := 1, phase := ph, state := st\<rparr>) s"

definition with_bucket :: "dart_dephash_elem list \<Rightarrow> dart_dephash_elem list \<Rightarrow> dart_state \<Rightarrow> dart_state" where
  "with_bucket b pending s =
     (upd_task 1 (\<lambda>x. x\<lparr>state := DART_TASK_ROOT,
                          local_deps := Some (\<lambda>i. if i = 16 then b else [])\<rparr>) s)
       \<lparr>unhandled_remote_deps := pending\<rparr>"

definition later_writer_state :: dart_state where
  "later_writer_state =
     with_bucket [writer 3 2] [remote_reader 1] (with_task 3 DART_TASK_CREATED 2 empty_state)"


definition earlier_writer_state :: dart_state where
  "earlier_writer_state =
     with_bucket [writer 4 0] [remote_reader 2] (with_task 4 DART_TASK_CREATED 0 empty_state)"




text \<open>
  States for the local matcher: task 4 is being submitted with an output dependency on
  the address 64. In \<open>reader_writer_state\<close> the bucket holds a reader (task 3) in front of a
  writer (task 2). In \<open>own_record_state\<close> task 4 has already registered an input
  dependency on the address (and waits for the writer 2); its own record is the head of
  the bucket.
\<close>

definition reader :: "taskref \<Rightarrow> int \<Rightarrow> dart_dephash_elem" where
  "reader t ph = \<lparr>taskdep = dep_on DART_DEP_IN 64 ph, task = t, origin = 0\<rparr>"

definition reader_writer_state :: dart_state where
  "reader_writer_state =
     with_bucket [reader 3 0, writer 2 0] []
       (with_task 2 DART_TASK_CREATED 0 (with_task 3 DART_TASK_CREATED 0
          (with_task 4 DART_TASK_CREATED 0 empty_state)))"

definition own_record_state :: dart_state where
  "own_record_state =
     with_bucket [reader 4 0, reader 3 0, writer 2 0] []
       (upd_task 2 (\<lambda>x. x\<lparr>successor := [4]\<rparr>)
          (upd_task 4 (\<lambda>x. x\<lparr>unresolved_deps := 1\<rparr>)
             (with_task 2 DART_TASK_CREATED 0 (with_task 3 DART_TASK_CREATED 0
                (with_task 4 DART_TASK_CREATED 0 empty_state)))))"

text \<open>
  The scenario of the delayed input: the writers W1 (task 2, phase 3) and W2 (task 3,
  phase 5) have been submitted, the bucket holds the record of W2 before that of W1; the
  reader R (task 4) comes with a delayed input dependency of phase 4.
\<close>

definition delayed_dep :: dart_task_dep where
  "delayed_dep = dep_on DART_DEP_DELAYED_IN 64 4"

definition delayed_state :: dart_state where
  "delayed_state =
     with_bucket [writer 3 5, writer 2 3] []
       (with_task 2 DART_TASK_CREATED 3 (with_task 3 DART_TASK_CREATED 5
          (with_task 4 DART_TASK_CREATED 4 empty_state)))"

section \<open>Properties\<close>

lemma tasks_free_dephash_list [simp]: "tasks (free_dephash_list l s) = tasks s"
  by (induction l arbitrary: s) (simp_all add: dephash_recycle_elem_def)

lemma tasks_fold_free [simp]:
  "tasks (fold (\<lambda>i. free_dephash_list (tbl i)) is s) = tasks s"
  by (induction "is" arbitrary: s) simp_all

subsection \<open>Reset\<close>

text \<open>
  Claim C9, as amended. \<open>dart_tasking_datadeps_reset\<close> always returns \<open>DART_OK\<close>. When the
  task owns a dependency table (\<open>local_deps\<close> is not null), the table is released, the
  list of remote successors is emptied and both counters are set to zero. When the task
  is null or owns no table, the guard at the head of the function returns at once and
  the state is left as it was.
\<close>

theorem reset_drops_table_owner:
  assumes "dart_tasking_datadeps_reset t s = (r, s')"
  shows "r = DART_OK \<and>
         (if t = NULL \<or> local_deps (tasks s t) = None then s' = s
          else local_deps (tasks s' t) = None \<and> remote_successor (tasks s' t) = [] \<and>
               unresolved_deps (tasks s' t) = 0 \<and> unresolved_remote_deps (tasks s' t) = 0)"
  using assms
  by (auto simp: dart_tasking_datadeps_reset_def Let_def upd_task_def split: if_splits)

theorem reset_drops_table_owner_witness:
  "local_deps (tasks reset_parent_state 2) \<noteq> None \<and>
   fst (dart_tasking_datadeps_reset 2 reset_parent_state) = DART_OK \<and>
   local_deps (tasks (snd (dart_tasking_datadeps_reset 2 reset_parent_state)) 2) = None \<and>
   remote_successor (tasks (snd (dart_tasking_datadeps_reset 2 reset_parent_state)) 2) = [] \<and>
   unresolved_deps (tasks (snd (dart_tasking_datadeps_reset 2 reset_parent_state)) 2) = 0 \<and>
   unresolved_remote_deps (tasks (snd (dart_tasking_datadeps_reset 2 reset_parent_state)) 2) = 0"
proof -
  have ld: "local_deps (tasks reset_parent_state 2) \<noteq> None"
    by (simp add: reset_parent_state_def upd_task_def)
  have nn: "(2::nat) \<noteq> NULL"
    by (simp add: NULL_def)
  show ?thesis
    using reset_drops_table_owner [OF prod.collapse [symmetric], of 2 reset_parent_state] ld nn
    by simp
qed

text \<open>
  The claim as stated fails for a task without a table: the reset of task 2 returns
  \<open>DART_OK\<close>, and afterwards the task still holds its remote successor and both counters
  are non-zero.
\<close>

theorem reset_leaf_counterexample:
  "fst (dart_tasking_datadeps_reset 2 reset_leaf_state) = DART_OK \<and>
   remote_successor (tasks (snd (dart_tasking_datadeps_reset 2 reset_leaf_state)) 2) \<noteq> [] \<and>
   unresolved_deps (tasks (snd (dart_tasking_datadeps_reset 2 reset_leaf_state)) 2) = 2 \<and>
   unresolved_remote_deps (tasks (snd (dart_tasking_datadeps_reset 2 reset_leaf_state)) 2) = 1"
  by (simp add: dart_tasking_datadeps_reset_def reset_leaf_state_def upd_task_def
                empty_state_def idle_task_def)

subsection \<open>The pool\<close>

text \<open>
  With a non-null task reference and a pool whose free records are all cleared, both
  assertions of \<open>dephash_allocate_elem\<close> hold and the new record carries the three
  arguments.
\<close>

lemma dephash_allocate_elem_ok:
  assumes "tr \<noteq> NULL" and "list_all (\<lambda>e. task e = NULL) (freelist_head s)"
  shows "dephash_allocate_elem dep tr orig s =
           Inr (\<lparr>taskdep = dep, task = tr, origin = orig\<rparr>,
                s\<lparr>freelist_head := tl (freelist_head s)\<rparr>)"
  using assms
  by (cases "freelist_head s") (simp_all add: dephash_allocate_elem_def zero_elem_def)

subsection \<open>A direct dependency of a remote task\<close>

text \<open>
  Claim C10. For every call of \<open>dart_tasking_datadeps_handle_remote_direct\<close> whose remote
  task reference is not null, on a pool of cleared records (the two conditions that
  \<open>dephash_allocate_elem\<close> asserts), the call returns \<open>DART_OK\<close> and exactly one of two
  things has happened, decided by whether the local task is active: either a new record of
  type \<open>DART_DEP_DIRECT\<close> naming the remote task and the origin is the new head of the
  remote successors of the local task and nothing was sent, or a release for the remote
  task was sent to the origin and the remote successors are as before.
\<close>

theorem handle_remote_direct_outcomes:
  assumes "remote_task \<noteq> NULL"
      and "list_all (\<lambda>e. task e = NULL) (freelist_head s)"
  shows "case dart_tasking_datadeps_handle_remote_direct act gptr_null uninit
                local_task remote_task orig s of
           Inl a \<Rightarrow> False
         | Inr (r, s') \<Rightarrow>
             r = DART_OK \<and>
             (if act (state (tasks s local_task))
              then remote_successor (tasks s' local_task) =
                     \<lparr>taskdep = uninit\<lparr>dtype := DART_DEP_DIRECT, gptr := gptr_null\<rparr>,
                      task = remote_task, origin = orig\<rparr> # remote_successor (tasks s local_task) \<and>
                   events s' = events s
              else remote_successor (tasks s' local_task) = remote_successor (tasks s local_task) \<and>
                   events s' =
                     events s @ [Remote_release orig remote_task
                                   (uninit\<lparr>dtype := DART_DEP_DIRECT, gptr := gptr_null\<rparr>)])"
  using dephash_allocate_elem_ok [OF assms]
  by (simp add: dart_tasking_datadeps_handle_remote_direct_def Let_def upd_task_def emit_def)

theorem handle_remote_direct_outcomes_witness:
  "(7::nat) \<noteq> NULL \<and> list_all (\<lambda>e. task e = NULL) (freelist_head remote_direct_state) \<and>
   (case dart_tasking_datadeps_handle_remote_direct is_active_example zero_gptr
           (dep_on DART_DEP_IN 0 0) 2 7 1 remote_direct_state of
      Inl a \<Rightarrow> False
    | Inr (r, s') \<Rightarrow>
        r = DART_OK \<and>
        remote_successor (tasks s' 2) =
          [\<lparr>taskdep = (dep_on DART_DEP_IN 0 0)\<lparr>dtype := DART_DEP_DIRECT, gptr := zero_gptr\<rparr>,
            task = 7, origin = 1\<rparr>] \<and>
        events s' = [])"
proof -
  have a: "(7::nat) \<noteq> NULL"
    by (simp add: NULL_def)
  have b: "list_all (\<lambda>e. task e = NULL) (freelist_head remote_direct_state)"
    by (simp add: remote_direct_state_def upd_task_def empty_state_def)
  have c: "is_active_example (state (tasks remote_direct_state 2))"
    by (simp add: remote_direct_state_def upd_task_def is_active_example_def)
  have d: "remote_successor (tasks remote_direct_state 2) = []"
    by (simp add: remote_direct_state_def upd_task_def empty_state_def idle_task_def)
  have e: "events remote_direct_state = []"
    by (simp add: remote_direct_state_def upd_task_def empty_state_def)
  show ?thesis
    using handle_remote_direct_outcomes [OF a b, where act = is_active_example
            and gptr_null = zero_gptr and uninit = "dep_on DART_DEP_IN 0 0"
            and local_task = 2 and orig = 1] a b c d e
    by (simp split: sum.splits prod.splits)
qed

subsection \<open>Buckets\<close>

lemma set_bucket_fields [simp]:
  "successor (tasks (set_bucket p slot b s) q) = successor (tasks s q)"
  "unresolved_deps (tasks (set_bucket p slot b s) q) = unresolved_deps (tasks s q)"
  "state (tasks (set_bucket p slot b s) q) = state (tasks s q)"
  by (simp_all add: set_bucket_def upd_task_def)


subsection \<open>Copy-in dependencies\<close>

text \<open>
  Claim C8 at a failing input. No output record for the destination is present, neither
  on the first pass nor after the collaborator has been called. On the second pass the
  condition handed to \<open>DART_ASSERT_MSG\<close> is \<open>iter\<close> itself, which is 1 there, so the
  assertion holds: the collaborator is called a second time and the function returns
  \<open>DART_OK\<close>.
\<close>

theorem handle_copyin_second_miss_returns_ok:
  "dart_tasking_datadeps_handle_copyin 0 create_nothing (dep_on DART_DEP_IN 0 0) copyin_dep 4
     copyin_state =
   Inr (DART_OK,
        copyin_state\<lparr>events := [Copyin_create_task copyin_dep copyin_dest_gptr 4,
                                 Copyin_create_task copyin_dep copyin_dest_gptr 4]\<rparr>)"
  by (simp add: dart_tasking_datadeps_handle_copyin_def handle_copyin_loop.simps Let_def
        copyin_state_def upd_task_def empty_state_def idle_task_def create_nothing_def
        emit_def copyin_dest_gptr_def copyin_dep_def)

subsection \<open>Releasing a finished task\<close>

lemma release_remote_walk_tasks [simp]: "tasks (release_remote_walk l s) = tasks s"
  by (induction l arbitrary: s) (simp_all add: dephash_recycle_elem_def emit_def)

lemma release_remote_walk_events:
  "events (release_remote_walk l s) =
     events s @ map (\<lambda>e. Remote_release (origin e) (task e) (taskdep e)) l"
  by (induction l arbitrary: s) (simp_all add: dephash_recycle_elem_def emit_def)

lemma release_successors_Nil:
  "successor (tasks s t) = [] \<Longrightarrow> release_successors t s = Inr (upd_task t (\<lambda>x. x\<lparr>successor := []\<rparr>) s)"
  by (subst release_successors.simps) (simp add: dart_tasking_tasklist_pop_def)

lemma release_successors_Cons:
  assumes "successor (tasks s t) = x # rest" and "x \<noteq> NULL"
  shows "release_successors t s =
           (let n = unresolved_deps (tasks s x) - 1;
                m = unresolved_remote_deps (tasks s x);
                s1 = upd_task x (\<lambda>y. y\<lparr>unresolved_deps := n\<rparr>)
                       (upd_task t (\<lambda>y. y\<lparr>successor := rest\<rparr>) s)
            in if \<not> (0 \<le> sint m \<and> 0 \<le> sint n) then Inl Assertion_failed
               else release_successors t
                      (if state (tasks s x) = DART_TASK_CREATED \<and> n = 0 \<and> m = 0
                       then emit (Enqueue_runnable x) s1 else s1))"
  using assms
  by (subst release_successors.simps)
     (auto simp: dart_tasking_tasklist_pop_def release_local_dep_counter_def Let_def
                 upd_task_def)

lemma upt_filter_shift:
  "map f (filter P [0..<Suc n]) =
     (if P 0 then [f 0] else []) @ map (\<lambda>i. f (Suc i)) (filter (\<lambda>i. P (Suc i)) [0..<n])"
proof -
  have "[0..<Suc n] = 0 # map Suc [0..<n]"
    by (simp add: upt_conv_Cons map_Suc_upt del: upt_Suc)
  then show ?thesis
    by (simp add: filter_map comp_def del: upt_Suc)
qed

lemma release_successors_loop:
  assumes "release_successors t s = Inr s'" and "NULL \<notin> set (successor (tasks s t))"
  shows "successor (tasks s' t) = [] \<and>
         (\<forall>S. unresolved_deps (tasks s' S) =
                unresolved_deps (tasks s S) - of_nat (count_list (successor (tasks s t)) S)) \<and>
         (\<forall>S. unresolved_remote_deps (tasks s' S) = unresolved_remote_deps (tasks s S) \<and>
              state (tasks s' S) = state (tasks s S)) \<and>
         events s' = events s @ map (\<lambda>i. Enqueue_runnable (successor (tasks s t) ! i))
                       (filter (released_at s (successor (tasks s t)))
                          [0..<length (successor (tasks s t))])"
  using assms
proof (induction xs \<equiv> "successor (tasks s t)" arbitrary: s)
  case Nil
  have "s' = upd_task t (\<lambda>x. x\<lparr>successor := []\<rparr>) s"
    using Nil.prems(1) release_successors_Nil [OF Nil.hyps [symmetric]] by simp
  then show ?case
    using Nil.hyps by (simp add: upd_task_def)
next
  case (Cons x rest)
  define n where "n = unresolved_deps (tasks s x) - 1"
  define m where "m = unresolved_remote_deps (tasks s x)"
  define s1 where "s1 = upd_task x (\<lambda>y. y\<lparr>unresolved_deps := n\<rparr>)
                       (upd_task t (\<lambda>y. y\<lparr>successor := rest\<rparr>) s)"
  define s2 where "s2 = (if state (tasks s x) = DART_TASK_CREATED \<and> n = 0 \<and> m = 0
                       then emit (Enqueue_runnable x) s1 else s1)"
  have xs: "successor (tasks s t) = x # rest"
    using Cons.hyps(2) by simp
  have xn: "x \<noteq> NULL" and rn: "NULL \<notin> set rest"
    using Cons.prems(2) xs by auto
  have step: "release_successors t s = release_successors t s2"
    and ok: "0 \<le> sint m \<and> 0 \<le> sint n"
    using Cons.prems(1) release_successors_Cons [OF xs xn]
    unfolding n_def m_def s1_def s2_def Let_def
    by (auto split: if_splits)
  have s2_succ: "successor (tasks s2 t) = rest"
    by (simp add: s2_def s1_def upd_task_def emit_def)
  have s2_deps: "unresolved_deps (tasks s2 S) =
                   unresolved_deps (tasks s S) - (if S = x then 1 else 0)" for S
    by (simp add: s2_def s1_def upd_task_def emit_def n_def)
  have s2_rem: "unresolved_remote_deps (tasks s2 S) = unresolved_remote_deps (tasks s S)"
    "state (tasks s2 S) = state (tasks s S)" for S
    by (simp_all add: s2_def s1_def upd_task_def emit_def)
  have s2_ev: "events s2 = events s @ (if released_at s (x # rest) 0 then [Enqueue_runnable x] else [])"
    by (auto simp: s2_def s1_def upd_task_def emit_def released_at_def n_def m_def)
  have rel: "released_at s (x # rest) (Suc i) = released_at s2 rest i" for i
    by (auto simp: released_at_def s2_deps s2_rem diff_eq_eq add.commute)
  note IH = Cons.hyps(1) [OF s2_succ [symmetric] _ , unfolded s2_succ, OF _ rn]
  have fin: "release_successors t s2 = Inr s'"
    using Cons.prems(1) step by simp
  note R = IH [OF fin]
  show ?case
    using R
    by (simp add: xs s2_deps s2_rem s2_ev upt_filter_shift rel del: upt_Suc)
qed

text \<open>
  Claim C5, as amended. When \<open>dart_tasking_datadeps_release_local_task\<close> returns, it has
  popped every successor of the task; each pop decrements the local counter
  \<open>unresolved_deps\<close> of the successor by one, and the remote counter
  \<open>unresolved_remote_deps\<close> is read, never changed. After the releases sent to the remote
  successors (none for a cancelled task), the successor popped in round \<open>i\<close> is enqueued
  exactly when its state is \<open>DART_TASK_CREATED\<close>, its local counter has reached zero with
  this pop and its remote counter is zero; otherwise it is skipped.
\<close>

theorem release_local_task_successors:
  assumes "dart_tasking_datadeps_release_local_task t s = Inr (r, s')"
      and "NULL \<notin> set (successor (tasks s t))"
  shows "r = DART_OK \<and> successor (tasks s' t) = [] \<and>
         (\<forall>S. unresolved_deps (tasks s' S) =
                unresolved_deps (tasks s S) - of_nat (count_list (successor (tasks s t)) S)) \<and>
         (\<forall>S. unresolved_remote_deps (tasks s' S) = unresolved_remote_deps (tasks s S)) \<and>
         events s' =
           events s @
           (if state (tasks s t) \<noteq> DART_TASK_CANCELLED
            then map (\<lambda>e. Remote_release (origin e) (task e) (taskdep e))
                   (remote_successor (tasks s t))
            else []) @
           map (\<lambda>i. Enqueue_runnable (successor (tasks s t) ! i))
             (filter
                (\<lambda>i. state (tasks s (successor (tasks s t) ! i)) = DART_TASK_CREATED \<and>
                     unresolved_deps (tasks s (successor (tasks s t) ! i)) =
                       of_nat (count_list (take (Suc i) (successor (tasks s t)))
                                 (successor (tasks s t) ! i)) \<and>
                     unresolved_remote_deps (tasks s (successor (tasks s t) ! i)) = 0)
                [0..<length (successor (tasks s t))])"
proof -
  define s1 where "s1 = (if state (tasks s t) \<noteq> DART_TASK_CANCELLED
                         then snd (release_remote_dependencies t s) else s)"
  have s1_tasks: "successor (tasks s1 S) = successor (tasks s S)"
    "unresolved_deps (tasks s1 S) = unresolved_deps (tasks s S)"
    "unresolved_remote_deps (tasks s1 S) = unresolved_remote_deps (tasks s S)"
    "state (tasks s1 S) = state (tasks s S)" for S
    by (simp_all add: s1_def release_remote_dependencies_def upd_task_def)
  have s1_ev: "events s1 = events s @
           (if state (tasks s t) \<noteq> DART_TASK_CANCELLED
            then map (\<lambda>e. Remote_release (origin e) (task e) (taskdep e))
                   (remote_successor (tasks s t))
            else [])"
    by (simp add: s1_def release_remote_dependencies_def upd_task_def release_remote_walk_events)
  have loop: "release_successors t s1 = Inr s'" and r: "r = DART_OK"
    using assms(1)
    by (auto simp: dart_tasking_datadeps_release_local_task_def s1_def Let_def
             split: sum.splits)
  have n: "NULL \<notin> set (successor (tasks s1 t))"
    using assms(2) by (simp add: s1_tasks)
  show ?thesis
    using release_successors_loop [OF loop n] r
    by (simp add: s1_tasks s1_ev released_at_def [abs_def])
qed

lemma release_state_run:
  "dart_tasking_datadeps_release_local_task 2 release_state = Inr (DART_OK, release_final)"
  by (simp add: dart_tasking_datadeps_release_local_task_def release_remote_dependencies_def
        release_successors.simps dart_tasking_tasklist_pop_def release_local_dep_counter_def
        release_state_def release_final_def upd_task_def emit_def empty_state_def
        idle_task_def NULL_def Let_def fun_upd_twist)

theorem release_local_task_successors_witness:
  "dart_tasking_datadeps_release_local_task 2 release_state = Inr (DART_OK, release_final) \<and>
   NULL \<notin> set (successor (tasks release_state 2)) \<and>
   unresolved_deps (tasks release_final 3) = 0 \<and>
   unresolved_deps (tasks release_final 4) = 0 \<and>
   unresolved_remote_deps (tasks release_final 4) = 1 \<and>
   events release_final = [Enqueue_runnable 3]"
proof -
  have st: "successor (tasks release_state 2) = [3, 4, 3]"
    "remote_successor (tasks release_state 2) = []"
    "events release_state = []"
    "state (tasks release_state 3) = DART_TASK_CREATED"
    "state (tasks release_state 4) = DART_TASK_CREATED"
    "unresolved_deps (tasks release_state 3) = 2"
    "unresolved_deps (tasks release_state 4) = 1"
    "unresolved_remote_deps (tasks release_state 3) = 0"
    "unresolved_remote_deps (tasks release_state 4) = 1"
    by (simp_all add: release_state_def upd_task_def empty_state_def idle_task_def)
  have n: "NULL \<notin> set (successor (tasks release_state 2))"
    by (simp add: st NULL_def)
  note T = release_local_task_successors [OF release_state_run n]
  have up: "[0..<3] = [0, 1, 2]"
    by (simp add: upt_rec)
  from T have "unresolved_deps (tasks release_final 3) =
      unresolved_deps (tasks release_state 3) - of_nat (count_list (successor (tasks release_state 2)) 3)"
    by blast
  then have a: "unresolved_deps (tasks release_final 3) = 0"
    by (simp add: st)
  from T have "unresolved_deps (tasks release_final 4) =
      unresolved_deps (tasks release_state 4) - of_nat (count_list (successor (tasks release_state 2)) 4)"
    by blast
  then have b: "unresolved_deps (tasks release_final 4) = 0"
    by (simp add: st)
  from T have "unresolved_remote_deps (tasks release_final 4) =
      unresolved_remote_deps (tasks release_state 4)"
    by blast
  then have c: "unresolved_remote_deps (tasks release_final 4) = 1"
    by (simp add: st)
  from T have d: "events release_final = [Enqueue_runnable 3]"
    by (simp add: st up)
  from release_state_run n a b c d show ?thesis
    by (intro conjI)
qed

text \<open>
  The claim as stated fails: task 4 has one local and one remote predecessor left. Its
  local counter reaches zero, its remote counter is not decremented and stays 1, and
  task 4 is not enqueued.
\<close>

theorem release_counter_counterexample:
  "(case dart_tasking_datadeps_release_local_task 2 release_blocked_state of
      Inl a \<Rightarrow> False
    | Inr (r, s') \<Rightarrow>
        unresolved_deps (tasks s' 4) = 0 \<and> unresolved_remote_deps (tasks s' 4) = 1 \<and>
        events s' = [])"
  by (simp add: dart_tasking_datadeps_release_local_task_def release_remote_dependencies_def
        release_successors.simps dart_tasking_tasklist_pop_def release_local_dep_counter_def
        release_blocked_state_def upd_task_def emit_def empty_state_def
        idle_task_def NULL_def Let_def)

subsection \<open>Deferred remote dependencies\<close>

lemma hash_addr_64:
  "hash_gptr \<lparr>unitid = 0, flags = 0, segid = 0, teamid = 0, addr = 64\<rparr> = 16"
  by (simp add: hash_gptr_def DART_DEPHASH_SIZE_def)

lemmas example_defs =
  with_bucket_def with_task_def writer_def remote_reader_def dep_on_def upd_task_def
  empty_state_def idle_task_def is_active_example_def NULL_def

lemmas deferred_defs =
  dart_tasking_datadeps_handle_defered_remote_def handle_defered_remote_record_def
  hash_addr_64 IS_OUT_DEP_def DEP_ADDR_EQ_def DEP_ADDR_def emit_def dephash_recycle_elem_def
  dart_tasking_tasklist_prepend_def Let_def

text \<open>The two results of the walk over a bucket.\<close>

lemma scan_candidate:
  "fst (deferred_remote_scan act ts rdep b NULL d) = satisfier act ts rdep b"
  by (induction b arbitrary: d)
     (auto simp: satisfier_def scan_stop_def remote_match_def Let_def)


lemma scan_cong:
  assumes "\<forall>x. state (ts x) = state (ts' x) \<and> phase (ts x) = phase (ts' x)"
  shows "deferred_remote_scan act ts rdep b c d = deferred_remote_scan act ts' rdep b c d"
  by (induction b arbitrary: c d) (simp_all add: assms Let_def)


lemma record_scan:
  "(case ld of None \<Rightarrow> (NULL, NULL)
    | Some tbl \<Rightarrow> deferred_remote_scan act ts rdep (tbl (hash_gptr (gptr (taskdep rdep)))) NULL NULL) =
   (satisfier act ts rdep (bucket_of ld rdep), direct_candidate act ts rdep (bucket_of ld rdep))"
  by (cases ld)
     (simp_all add: bucket_of_def direct_candidate_def prod_eq_iff scan_candidate satisfier_def)

text \<open>The effect of handling one pending record, field by field.\<close>

lemma record_fields:
  fixes act ld rdep s
  defines "c \<equiv> satisfier act (tasks s) rdep (bucket_of ld rdep)"
      and "d \<equiv> direct_candidate act (tasks s) rdep (bucket_of ld rdep)"
      and "s' \<equiv> handle_defered_remote_record act ld rdep s"
  shows "remote_successor (tasks s' x) =
           (if c \<noteq> NULL \<and> x = c then rdep # remote_successor (tasks s x)
            else remote_successor (tasks s x))"
    and "unresolved_remote_deps (tasks s' x) =
           (if d \<noteq> NULL \<and> x = d then unresolved_remote_deps (tasks s x) + 1
            else unresolved_remote_deps (tasks s x))"
    and "state (tasks s' x) = state (tasks s x)"
    and "phase (tasks s' x) = phase (tasks s x)"
    and "events s' =
           events s @
           (if d \<noteq> NULL then [Remote_direct_taskdep (origin rdep) d (task rdep)] else []) @
           (if c = NULL then [Remote_release (origin rdep) (task rdep) (taskdep rdep)] else [])"
    and "freelist_head s' = (if c = NULL then zero_elem # freelist_head s else freelist_head s)"
    and "remote_blocked_tasks s' =
           (if d \<noteq> NULL \<and> unresolved_remote_deps (tasks s d) = 0
            then d # remote_blocked_tasks s else remote_blocked_tasks s)"
  unfolding s'_def handle_defered_remote_record_def record_scan c_def [symmetric] d_def [symmetric]
  by (simp_all add: Let_def upd_task_def emit_def dephash_recycle_elem_def
                    dart_tasking_tasklist_prepend_def)

lemma fold_records_view:
  "state (tasks (fold (handle_defered_remote_record act ld) rs s) x) = state (tasks s x) \<and>
   phase (tasks (fold (handle_defered_remote_record act ld) rs s) x) = phase (tasks s x)"
  by (induction rs arbitrary: s) (simp_all add: record_fields)

lemma fold_records_same_view:
  "\<forall>x. state (tasks (fold (handle_defered_remote_record act ld) rs s) x) = state (tasks s x) \<and>
       phase (tasks (fold (handle_defered_remote_record act ld) rs s) x) = phase (tasks s x)"
  by (simp add: fold_records_view)

lemma satisfier_view:
  assumes "\<forall>x. state (ts x) = state (ts' x) \<and> phase (ts x) = phase (ts' x)"
  shows "satisfier act ts rdep b = satisfier act ts' rdep b"
    and "direct_candidate act ts rdep b = direct_candidate act ts' rdep b"
proof -
  have e: "deferred_remote_scan act ts rdep b NULL NULL =
           deferred_remote_scan act ts' rdep b NULL NULL"
    by (rule scan_cong [OF assms])
  show "satisfier act ts rdep b = satisfier act ts' rdep b"
    using e scan_candidate [of act ts rdep b NULL] scan_candidate [of act ts' rdep b NULL]
    by simp
  show "direct_candidate act ts rdep b = direct_candidate act ts' rdep b"
    using e by (simp add: direct_candidate_def)
qed


lemma fold_take_Suc:
  "i < length xs \<Longrightarrow> fold f (take (Suc i) xs) s = f (xs ! i) (fold f (take i xs) s)"
  by (simp add: take_Suc_conv_app_nth)



text \<open>
  Claim C1, as amended. Handling the pending records one after the other, each record
  \<open>rdep\<close> meets exactly one of two outcomes: a release is sent to its origin and the
  record is recycled, or the record becomes the head of the remote successors of exactly
  one local task. A direct task dependency is sent to the origin, before either outcome,
  exactly when the walk has found a direct-dependency candidate; it is no third
  alternative. \<open>bef\<close> and \<open>aft\<close> are the states before and after record \<open>i\<close> is handled.
\<close>

theorem deferred_remote_record_outcome:
  assumes "i < length (unhandled_remote_deps s)"
  shows "let ld = local_deps (tasks s (current_task s));
             pending = unhandled_remote_deps s;
             rdep = pending ! i;
             bef = fold (handle_defered_remote_record act ld) (take i pending) s;
             aft = fold (handle_defered_remote_record act ld) (take (Suc i) pending) s;
             d = direct_candidate act (tasks s) rdep (bucket_of ld rdep);
             direct = (if d \<noteq> NULL then [Remote_direct_taskdep (origin rdep) d (task rdep)]
                       else []);
             released =
               (events aft =
                  events bef @ direct @ [Remote_release (origin rdep) (task rdep) (taskdep rdep)] \<and>
                freelist_head aft = zero_elem # freelist_head bef \<and>
                (\<forall>x. remote_successor (tasks aft x) = remote_successor (tasks bef x)));
             attached =
               (events aft = events bef @ direct \<and>
                freelist_head aft = freelist_head bef \<and>
                (\<exists>c. c \<noteq> NULL \<and>
                     remote_successor (tasks aft c) = rdep # remote_successor (tasks bef c) \<and>
                     (\<forall>x. x \<noteq> c \<longrightarrow>
                          remote_successor (tasks aft x) = remote_successor (tasks bef x))))
         in snd (dart_tasking_datadeps_handle_defered_remote act s) =
              (fold (handle_defered_remote_record act ld) pending s)\<lparr>unhandled_remote_deps := []\<rparr> \<and>
            ((released \<and> \<not> attached) \<or> (attached \<and> \<not> released))"
proof -
  define ld where "ld = local_deps (tasks s (current_task s))"
  define rdep where "rdep = unhandled_remote_deps s ! i"
  define bef where "bef = fold (handle_defered_remote_record act ld) (take i (unhandled_remote_deps s)) s"
  define aft where "aft = fold (handle_defered_remote_record act ld) (take (Suc i) (unhandled_remote_deps s)) s"
  have aft: "aft = handle_defered_remote_record act ld rdep bef"
    unfolding aft_def bef_def rdep_def by (rule fold_take_Suc [OF assms])
  have v: "\<forall>x. state (tasks bef x) = state (tasks s x) \<and> phase (tasks bef x) = phase (tasks s x)"
    unfolding bef_def by (rule fold_records_same_view)
  have c: "satisfier act (tasks bef) rdep (bucket_of ld rdep) = satisfier act (tasks s) rdep (bucket_of ld rdep)"
    and d: "direct_candidate act (tasks bef) rdep (bucket_of ld rdep) =
            direct_candidate act (tasks s) rdep (bucket_of ld rdep)"
    using satisfier_view [OF v] by simp_all
  have run: "snd (dart_tasking_datadeps_handle_defered_remote act s) =
               (fold (handle_defered_remote_record act ld) (unhandled_remote_deps s) s)
                 \<lparr>unhandled_remote_deps := []\<rparr>"
    by (simp add: dart_tasking_datadeps_handle_defered_remote_def Let_def ld_def)
  show ?thesis
    unfolding Let_def ld_def [symmetric] rdep_def [symmetric] bef_def [symmetric] aft_def [symmetric]
    by (cases "satisfier act (tasks s) rdep (bucket_of ld rdep) = NULL")
       (auto simp: run aft record_fields c d)
qed

theorem deferred_remote_record_outcome_witness:
  "(0::nat) < length (unhandled_remote_deps earlier_writer_state) \<and>
   remote_successor (tasks (snd (dart_tasking_datadeps_handle_defered_remote is_active_example
                                    earlier_writer_state)) 4) = [remote_reader 2] \<and>
   events (snd (dart_tasking_datadeps_handle_defered_remote is_active_example
                  earlier_writer_state)) = [] \<and>
   freelist_head (snd (dart_tasking_datadeps_handle_defered_remote is_active_example
                         earlier_writer_state)) = []"
  using deferred_remote_record_outcome [of 0 earlier_writer_state is_active_example]
  by (simp add: earlier_writer_state_def deferred_defs example_defs)

text \<open>
  The claim as stated fails: the only local writer is in phase 2, the pending record in
  phase 1. For this one record a direct task dependency and a release are both sent.
\<close>

theorem deferred_remote_two_outcomes_counterexample:
  "length (unhandled_remote_deps later_writer_state) = 1 \<and>
   events (snd (dart_tasking_datadeps_handle_defered_remote is_active_example
                  later_writer_state)) =
     [Remote_direct_taskdep 1 3 9, Remote_release 1 9 (dep_on DART_DEP_IN 64 1)]"
  by (simp add: later_writer_state_def deferred_defs example_defs)







subsection \<open>Matching a local dependency\<close>

lemma linked_records_Nil [simp]: "linked_records dep t [] = []"
  by (simp add: linked_records_def)

lemma linked_records_Cons:
  "linked_records dep t (e # b) =
     (if DEP_ADDR_EQ (taskdep e) dep
      then if task e = t then []
           else if IS_OUT_DEP (taskdep e) then [e] else e # linked_records dep t b
      else linked_records dep t b)"
  by (simp add: linked_records_def local_stop_def)

lemma linked_records_not_self: "e \<in> set (linked_records dep t b) \<Longrightarrow> task e \<noteq> t"
  by (induction b) (auto simp: linked_records_Cons split: if_splits)

lemma finite_local_predecessors [simp]: "finite (local_predecessors act dep t ts b)"
  by (simp add: local_predecessors_def)

lemma self_not_predecessor [simp]: "t \<notin> local_predecessors act dep t ts b"
  by (auto simp: local_predecessors_def dest: linked_records_not_self)

lemma match_local_walk_edges:
  "(\<forall>p. successor (tasks (match_local_walk act dep t slot b i s) p) =
          (if p \<in> local_predecessors act dep t (tasks s) b
           then t # successor (tasks s p) else successor (tasks s p))) \<and>
   unresolved_deps (tasks (match_local_walk act dep t slot b i s) t) =
     unresolved_deps (tasks s t) + of_nat (card (local_predecessors act dep t (tasks s) b)) \<and>
   (\<forall>p. state (tasks (match_local_walk act dep t slot b i s) p) = state (tasks s p))"
proof (induction b arbitrary: i s)
  case Nil
  show ?case by (simp add: local_predecessors_def)
next
  case (Cons e b)
  show ?case
  proof (cases "DEP_ADDR_EQ (taskdep e) dep")
    case False
    then have "local_predecessors act dep t (tasks s) (e # b) = local_predecessors act dep t (tasks s) b"
      by (simp add: local_predecessors_def linked_records_Cons)
    then show ?thesis
      using Cons.IH [of "Suc i" s] False by simp
  next
    case True
    show ?thesis
    proof (cases "task e = t")
      case self: True
      then have "local_predecessors act dep t (tasks s) (e # b) = {}"
        using True by (simp add: local_predecessors_def linked_records_Cons)
      then show ?thesis
        using True self by simp
    next
      case other: False
      define link where "link \<longleftrightarrow>
         (IS_OUT_DEP dep \<or> (dtype dep = DART_DEP_IN \<and> IS_OUT_DEP (taskdep e))) \<and>
         act (state (tasks s (task e))) \<and> t \<notin> set (successor (tasks s (task e)))"
      define s1 where "s1 = (if link then
              upd_task (task e) (\<lambda>x. x\<lparr>successor := t # successor x\<rparr>)
                (upd_task t (\<lambda>x. x\<lparr>unresolved_deps := unresolved_deps x + 1\<rparr>) s)
            else s)"
      have s1_succ: "successor (tasks s1 p) =
          (if link \<and> p = task e then t # successor (tasks s p) else successor (tasks s p))" for p
        using other by (simp add: s1_def upd_task_def)
      have s1_deps: "unresolved_deps (tasks s1 t) = unresolved_deps (tasks s t) + (if link then 1 else 0)"
        using other by (simp add: s1_def upd_task_def)
      have s1_state: "state (tasks s1 p) = state (tasks s p)" for p
        by (simp add: s1_def upd_task_def)
      have walk: "match_local_walk act dep t slot (e # b) i s =
                    (if IS_OUT_DEP (taskdep e) then s1
                     else match_local_walk act dep t slot b (Suc i) s1)"
        using True other
        by (simp add: s1_def link_def Let_def dart_tasking_tasklist_contains_def
              dart_tasking_tasklist_prepend_def)
      show ?thesis
      proof (cases "IS_OUT_DEP (taskdep e)")
        case writer: True
        have "local_predecessors act dep t (tasks s) (e # b) = (if link then {task e} else {})"
          using True other writer
          by (simp add: local_predecessors_def linked_records_Cons link_def)
        then show ?thesis
          using writer by (simp add: walk s1_succ s1_deps s1_state del: match_local_walk.simps)
      next
        case reader: False
        have P: "local_predecessors act dep t (tasks s) (e # b) =
                   (if link then insert (task e) (local_predecessors act dep t (tasks s) b)
                    else local_predecessors act dep t (tasks s) b)"
          using True other reader
          by (auto simp: local_predecessors_def linked_records_Cons link_def)
        have P1: "local_predecessors act dep t (tasks s1) b =
                   (if link then local_predecessors act dep t (tasks s) b - {task e}
                    else local_predecessors act dep t (tasks s) b)"
          by (auto simp: local_predecessors_def s1_succ s1_state)
        note IH = Cons.IH [of "Suc i" s1]
        show ?thesis
        proof (cases link)
          case False
          then show ?thesis
            using IH reader by (simp add: walk P P1 s1_succ s1_deps s1_state del: match_local_walk.simps)
        next
          case True
          have c: "card (insert (task e) (local_predecessors act dep t (tasks s) b)) =
                   Suc (card (local_predecessors act dep t (tasks s) b - {task e}))"
            by (simp add: card.insert_remove)
          show ?thesis
            using IH reader True
            by (simp add: walk P P1 s1_succ s1_deps s1_state c del: match_local_walk.simps)
        qed
      qed
    qed
  qed
qed

lemma upgraded_bucket_Nil [simp]: "upgraded_bucket dep t [] = []"
  by (simp add: upgraded_bucket_def)

lemma upgraded_bucket_Cons:
  "upgraded_bucket dep t (e # b) =
     (if DEP_ADDR_EQ (taskdep e) dep
      then if task e = t
           then if dtype (taskdep e) = DART_DEP_IN \<and> IS_OUT_DEP dep
                then e\<lparr>taskdep := (taskdep e)\<lparr>dtype := DART_DEP_INOUT\<rparr>\<rparr> # b
                else e # b
           else if IS_OUT_DEP (taskdep e) then e # b else e # upgraded_bucket dep t b
      else e # upgraded_bucket dep t b)"
  by (simp add: upgraded_bucket_def local_stop_def)

lemma match_local_walk_table:
  assumes "get_bucket s (parent (tasks s t)) slot = pre @ b"
  shows "(\<forall>q. local_deps (tasks (match_local_walk act dep t slot b (length pre) s) q) =
               (if q = parent (tasks s t)
                then map_option (\<lambda>tbl. tbl(slot := pre @ upgraded_bucket dep t b))
                       (local_deps (tasks s q))
                else local_deps (tasks s q))) \<and>
         (\<forall>q. q \<noteq> t \<longrightarrow>
               unresolved_deps (tasks (match_local_walk act dep t slot b (length pre) s) q) =
               unresolved_deps (tasks s q))"
  using assms
proof (induction b arbitrary: pre s)
  case Nil
  then show ?case
    by (auto simp: get_bucket_def split: option.splits)
next
  case (Cons e b)
  have triv: "map_option (\<lambda>tbl. tbl(slot := pre @ e # b)) (local_deps (tasks s (parent (tasks s t)))) =
              local_deps (tasks s (parent (tasks s t)))"
    using Cons.prems by (auto simp: get_bucket_def split: option.splits)
  show ?case
  proof (cases "DEP_ADDR_EQ (taskdep e) dep")
    case False
    have g: "get_bucket s (parent (tasks s t)) slot = (pre @ [e]) @ b"
      using Cons.prems by simp
    show ?thesis
      using Cons.IH [OF g] False by (simp add: upgraded_bucket_Cons)
  next
    case True
    show ?thesis
    proof (cases "task e = t")
      case self: True
      show ?thesis
        using True self Cons.prems triv
        by (auto simp: upgraded_bucket_Cons set_bucket_def upd_task_def get_bucket_def
              list_update_append split: option.splits)
    next
      case other: False
      define s1 where "s1 = (if IS_OUT_DEP dep \<or> (dtype dep = DART_DEP_IN \<and> IS_OUT_DEP (taskdep e))
                    then
                      if act (state (tasks s (task e))) then
                        if dart_tasking_tasklist_contains (successor (tasks s (task e))) t
                        then s
                        else
                          upd_task (task e)
                            (\<lambda>x. x\<lparr>successor := dart_tasking_tasklist_prepend (successor x) t\<rparr>)
                            (upd_task t (\<lambda>x. x\<lparr>unresolved_deps := unresolved_deps x + 1\<rparr>) s)
                      else s
                    else s)"
      have s1: "parent (tasks s1 q) = parent (tasks s q)"
        "local_deps (tasks s1 q) = local_deps (tasks s q)"
        "q \<noteq> t \<Longrightarrow> unresolved_deps (tasks s1 q) = unresolved_deps (tasks s q)" for q
        by (simp_all add: s1_def upd_task_def)
      have walk: "match_local_walk act dep t slot (e # b) (length pre) s =
                    (if IS_OUT_DEP (taskdep e) then s1
                     else match_local_walk act dep t slot b (Suc (length pre)) s1)"
        using True other by (simp add: s1_def Let_def)
      have g: "get_bucket s1 (parent (tasks s1 t)) slot = (pre @ [e]) @ b"
        using Cons.prems by (simp add: get_bucket_def s1)
      show ?thesis
        using Cons.IH [OF g] True other triv
        by (simp add: walk upgraded_bucket_Cons s1 del: match_local_walk.simps)
    qed
  qed
qed

lemmas match_local_defs =
  dart_tasking_datadeps_match_local_datadep_def hash_addr_64 IS_OUT_DEP_def DEP_ADDR_EQ_def
  DEP_ADDR_def dart_tasking_tasklist_contains_def dart_tasking_tasklist_prepend_def
  set_bucket_def get_bucket_def Let_def reader_def

text \<open>
  Claim C6, as amended. The walk goes through the bucket from its head and stops at the
  first record on the same address that holds an output dependency, or earlier at a
  record of the new task itself: that record is upgraded from \<open>DART_DEP_IN\<close> to
  \<open>DART_DEP_INOUT\<close> when the new dependency is an output, and nothing is linked for it.
  For every record on the same address visited up to and including the writer, if the
  new dependency is an output, or it is an input and the record is an output, and the
  task of the record is active and does not have the new task among its successors, the
  new task is prepended to the successors of that task and its counter \<open>unresolved_deps\<close>
  is incremented, once for each such task. No other successor list, counter or bucket
  changes.
\<close>

theorem match_local_datadep_edges:
  assumes "dart_tasking_datadeps_match_local_datadep act dep t s = (r, s')"
  shows "let p = parent (tasks s t);
             slot = hash_gptr (gptr dep);
             preds = local_predecessors act dep t (tasks s) (get_bucket s p slot)
         in r = DART_OK \<and>
            (\<forall>q. successor (tasks s' q) =
                   (if q \<in> preds then t # successor (tasks s q) else successor (tasks s q))) \<and>
            unresolved_deps (tasks s' t) = unresolved_deps (tasks s t) + of_nat (card preds) \<and>
            (\<forall>q. q \<noteq> t \<longrightarrow> unresolved_deps (tasks s' q) = unresolved_deps (tasks s q)) \<and>
            (\<forall>q. local_deps (tasks s' q) =
                   (if q = p
                    then map_option (\<lambda>tbl. tbl(slot := upgraded_bucket dep t (tbl slot)))
                           (local_deps (tasks s q))
                    else local_deps (tasks s q)))"
proof (cases "local_deps (tasks s (parent (tasks s t)))")
  case None
  then have "s' = s" "r = DART_OK"
    using assms by (simp_all add: dart_tasking_datadeps_match_local_datadep_def)
  then show ?thesis
    using None by (simp add: get_bucket_def local_predecessors_def)
next
  case (Some tbl)
  then have s': "s' = match_local_walk act dep t (hash_gptr (gptr dep)) (tbl (hash_gptr (gptr dep))) 0 s"
    and r: "r = DART_OK"
    using assms by (simp_all add: dart_tasking_datadeps_match_local_datadep_def Let_def)
  have g: "get_bucket s (parent (tasks s t)) (hash_gptr (gptr dep)) = [] @ tbl (hash_gptr (gptr dep))"
    using Some by (simp add: get_bucket_def)
  show ?thesis
    using Some r match_local_walk_edges [of act dep t "hash_gptr (gptr dep)"
                 "tbl (hash_gptr (gptr dep))" 0 s]
      match_local_walk_table [OF g, of act dep]
    by (simp add: get_bucket_def Let_def s' del: match_local_walk.simps)
qed

theorem match_local_datadep_edges_witness:
  "local_predecessors is_active_example (dep_on DART_DEP_OUT 64 0) 4 (tasks reader_writer_state)
     (get_bucket reader_writer_state (parent (tasks reader_writer_state 4))
        (hash_gptr (gptr (dep_on DART_DEP_OUT 64 0)))) = {3, 2} \<and>
   successor (tasks (snd (dart_tasking_datadeps_match_local_datadep is_active_example
                            (dep_on DART_DEP_OUT 64 0) 4 reader_writer_state)) 3) = [4] \<and>
   successor (tasks (snd (dart_tasking_datadeps_match_local_datadep is_active_example
                            (dep_on DART_DEP_OUT 64 0) 4 reader_writer_state)) 2) = [4] \<and>
   unresolved_deps (tasks (snd (dart_tasking_datadeps_match_local_datadep is_active_example
                                  (dep_on DART_DEP_OUT 64 0) 4 reader_writer_state)) 4) = 2 \<and>
   get_bucket (snd (dart_tasking_datadeps_match_local_datadep is_active_example
                      (dep_on DART_DEP_OUT 64 0) 4 reader_writer_state)) 1 16 =
     [reader 3 0, writer 2 0] \<and>
   get_bucket (snd (dart_tasking_datadeps_match_local_datadep is_active_example
                      (dep_on DART_DEP_OUT 64 0) 4 own_record_state)) 1 16 =
     [\<lparr>taskdep = dep_on DART_DEP_INOUT 64 0, task = 4, origin = 0\<rparr>, reader 3 0, writer 2 0]"
  using match_local_datadep_edges [OF prod.collapse [symmetric], where act = is_active_example
          and dep = "dep_on DART_DEP_OUT 64 0" and t = 4 and s = reader_writer_state]
        match_local_datadep_edges [OF prod.collapse [symmetric], where act = is_active_example
          and dep = "dep_on DART_DEP_OUT 64 0" and t = 4 and s = own_record_state]
  by (simp add: reader_writer_state_def own_record_state_def match_local_defs example_defs
        local_predecessors_def linked_records_def local_stop_def upgraded_bucket_def)

text \<open>
  The claim as stated fails: the record of the reader 3 lies before the first writer, the
  new dependency of task 4 is an output, task 3 is active and does not have task 4 among
  its successors. The walk stops at the head of the bucket, a record of task 4 itself:
  task 4 does not become a successor of task 3 and its counter stays 1.
\<close>

theorem match_local_own_record_counterexample:
  "get_bucket own_record_state (parent (tasks own_record_state 4))
     (hash_gptr (gptr (dep_on DART_DEP_OUT 64 0))) = [reader 4 0, reader 3 0, writer 2 0] \<and>
   IS_OUT_DEP (dep_on DART_DEP_OUT 64 0) \<and>
   DEP_ADDR_EQ (taskdep (reader 3 0)) (dep_on DART_DEP_OUT 64 0) \<and>
   is_active_example (state (tasks own_record_state 3)) \<and>
   successor (tasks own_record_state 3) = [] \<and>
   unresolved_deps (tasks own_record_state 4) = 1 \<and>
   successor (tasks (snd (dart_tasking_datadeps_match_local_datadep is_active_example
                            (dep_on DART_DEP_OUT 64 0) 4 own_record_state)) 3) = [] \<and>
   unresolved_deps (tasks (snd (dart_tasking_datadeps_match_local_datadep is_active_example
                                  (dep_on DART_DEP_OUT 64 0) 4 own_record_state)) 4) = 1"
  by (simp add: own_record_state_def match_local_defs example_defs)

subsection \<open>Matching a delayed local dependency\<close>

lemma match_delayed_walk_prefix:
  assumes "list_all (passed_over dep t) pre"
  shows "match_delayed_walk act dep t slot (pre @ rest) i n s =
           match_delayed_walk act dep t slot rest (i + length pre)
             (case filter (later_writer dep) pre of [] \<Rightarrow> n | x # xs \<Rightarrow> task (last (x # xs))) s"
  using assms
proof (induction pre arbitrary: i n)
  case Nil
  show ?case by simp
next
  case (Cons e pre)
  from Cons.prems have p: "passed_over dep t e" and ps: "list_all (passed_over dep t) pre"
    by simp_all
  show ?case
  proof (cases "dphase (taskdep e) > dphase dep")
    case True
    show ?thesis
      using True Cons.IH [OF ps, of "Suc i"]
      by (auto simp: later_writer_def split: list.splits)
  next
    case False
    then have nl: "\<not> later_writer dep e"
      by (simp add: later_writer_def)
    show ?thesis
      using False p nl Cons.IH [OF ps, of "Suc i" n]
      by (auto simp: passed_over_def Let_def)
  qed
qed

text \<open>
  Claim C7. The delayed dependency \<open>dep\<close> of task \<open>t\<close> is matched to the writer \<open>E\<close> of a
  phase less than or equal to its own, the first such record after the records \<open>pre\<close> that
  the walk passes over, and among \<open>pre\<close> there is a later writer: \<open>N\<close> is the next writer,
  an active task (the walk asserts that \<open>N\<close> is active and that \<open>E\<close> is not a record of
  \<open>t\<close>). Then the call returns \<open>DART_OK\<close>, the counter \<open>unresolved_deps\<close> of \<open>N\<close> is
  incremented, \<open>N\<close> is prepended to the successors of \<open>t\<close>, and no record is inserted: every
  table and the pool are as before. The counter of \<open>t\<close> counts the writer \<open>E\<close> when its
  task is active, and \<open>t\<close> is then a successor of that task.
\<close>

theorem match_delayed_next_writer:
  assumes tbl: "local_deps (tasks s (parent (tasks s t))) = Some tbl"
      and bucket: "tbl (hash_gptr (gptr dep)) = pre @ E # rest"
      and pre: "list_all (passed_over dep t) pre"
      and E: "dphase (taskdep E) \<le> dphase dep" "DEP_ADDR_EQ (taskdep E) dep"
             "IS_OUT_DEP (taskdep E)" "task E \<noteq> t"
      and N: "N = next_writer dep pre" "N \<noteq> NULL" "act (state (tasks s N))"
  shows "case dart_tasking_datadeps_match_delayed_local_datadep act dep t s of
           Inl a \<Rightarrow> False
         | Inr (r, s') \<Rightarrow>
             r = DART_OK \<and>
             unresolved_deps (tasks s' N) =
               unresolved_deps (tasks s N) + 1 +
               (if N = t \<and> act (state (tasks s (task E))) then 1 else 0) \<and>
             successor (tasks s' t) = N # successor (tasks s t) \<and>
             (\<forall>p. local_deps (tasks s' p) = local_deps (tasks s p)) \<and>
             freelist_head s' = freelist_head s \<and>
             unresolved_deps (tasks s' t) =
               unresolved_deps (tasks s t) +
               (if act (state (tasks s (task E))) then 1 else 0) + (if N = t then 1 else 0) \<and>
             successor (tasks s' (task E)) =
               (if act (state (tasks s (task E)))
                then t # successor (tasks s (task E)) else successor (tasks s (task E)))"
proof -
  have n: "(case filter (later_writer dep) pre of [] \<Rightarrow> NULL | x # xs \<Rightarrow> task (last (x # xs))) = N"
    using N(1) by (simp add: next_writer_def)
  have walk: "match_delayed_walk act dep t (hash_gptr (gptr dep)) (pre @ E # rest) 0 NULL s =
                match_delayed_walk act dep t (hash_gptr (gptr dep)) (E # rest) (length pre) N s"
    using match_delayed_walk_prefix [OF pre, of act "hash_gptr (gptr dep)" "E # rest" 0 NULL s]
    by (simp add: n)
  show ?thesis
    using tbl bucket E N(2,3)
    by (simp add: dart_tasking_datadeps_match_delayed_local_datadep_def Let_def walk)
       (auto simp: upd_task_def dart_tasking_tasklist_prepend_def)
qed

text \<open>
  The scenario: after the call the successors of R are W2, the counter of R is 1 (it
  counts W1), the counter of W2 is 1, R is a successor of W1 and the table is unchanged.
\<close>

theorem match_delayed_next_writer_witness:
  "local_deps (tasks delayed_state (parent (tasks delayed_state 4))) =
     Some (\<lambda>i. if i = 16 then [writer 3 5, writer 2 3] else []) \<and>
   (if hash_gptr (gptr delayed_dep) = 16 then [writer 3 5, writer 2 3] else []) =
     [writer 3 5] @ writer 2 3 # [] \<and>
   list_all (passed_over delayed_dep 4) [writer 3 5] \<and>
   dphase (taskdep (writer 2 3)) \<le> dphase delayed_dep \<and>
   DEP_ADDR_EQ (taskdep (writer 2 3)) delayed_dep \<and>
   IS_OUT_DEP (taskdep (writer 2 3)) \<and>
   task (writer 2 3) \<noteq> 4 \<and>
   3 = next_writer delayed_dep [writer 3 5] \<and>
   3 \<noteq> NULL \<and>
   is_active_example (state (tasks delayed_state 3)) \<and>
   (case dart_tasking_datadeps_match_delayed_local_datadep is_active_example delayed_dep 4
           delayed_state of
      Inl a \<Rightarrow> False
    | Inr (r, s') \<Rightarrow>
        r = DART_OK \<and>
        successor (tasks s' 4) = [3] \<and>
        unresolved_deps (tasks s' 3) = 1 \<and>
        unresolved_deps (tasks s' 4) = 1 \<and>
        successor (tasks s' 2) = [4] \<and>
        local_deps (tasks s' 1) = local_deps (tasks delayed_state 1))"
proof -
  have h: "hash_gptr (gptr delayed_dep) = 16"
    by (simp add: delayed_dep_def dep_on_def hash_addr_64)
  have tbl: "local_deps (tasks delayed_state (parent (tasks delayed_state 4))) =
               Some (\<lambda>i. if i = 16 then [writer 3 5, writer 2 3] else [])"
    by (simp add: delayed_state_def with_bucket_def with_task_def upd_task_def empty_state_def
          idle_task_def NULL_def)
  have bucket: "(\<lambda>i. if i = 16 then [writer 3 5, writer 2 3] else []) (hash_gptr (gptr delayed_dep)) =
                  [writer 3 5] @ writer 2 3 # []"
    by (simp add: h)
  have pre: "list_all (passed_over delayed_dep 4) [writer 3 5]"
    by (simp add: passed_over_def delayed_dep_def writer_def dep_on_def)
  have E: "dphase (taskdep (writer 2 3)) \<le> dphase delayed_dep"
    "DEP_ADDR_EQ (taskdep (writer 2 3)) delayed_dep"
    "IS_OUT_DEP (taskdep (writer 2 3))" "task (writer 2 3) \<noteq> 4"
    by (simp_all add: delayed_dep_def writer_def dep_on_def DEP_ADDR_EQ_def DEP_ADDR_def
          IS_OUT_DEP_def)
  have N: "3 = next_writer delayed_dep [writer 3 5]" "(3::nat) \<noteq> NULL"
    "is_active_example (state (tasks delayed_state 3))"
    by (simp_all add: next_writer_def later_writer_def delayed_dep_def writer_def dep_on_def
          DEP_ADDR_EQ_def DEP_ADDR_def IS_OUT_DEP_def NULL_def delayed_state_def
          with_bucket_def with_task_def upd_task_def is_active_example_def)
  have st: "successor (tasks delayed_state 4) = []" "successor (tasks delayed_state 2) = []"
    "unresolved_deps (tasks delayed_state 3) = 0" "unresolved_deps (tasks delayed_state 4) = 0"
    "is_active_example (state (tasks delayed_state 2))"
    by (simp_all add: delayed_state_def example_defs)
  have tw: "task (writer 2 3) = 2"
    by (simp add: writer_def)
  show ?thesis
    using match_delayed_next_writer
            [where tbl = "\<lambda>i. if i = 16 then [writer 3 5, writer 2 3] else []"
               and dep = delayed_dep and s = delayed_state and t = 4 and pre = "[writer 3 5]"
               and E = "writer 2 3" and rest = "[]" and N = 3 and act = is_active_example,
             OF tbl bucket pre E N]
          tbl h pre E N st
    by (simp add: tw split: sum.splits prod.splits)
qed

subsection \<open>Equality of addresses\<close>






lemma dephash_require_alloc_fields [simp]:
  "successor (tasks (dephash_require_alloc p s) q) = successor (tasks s q)"
  "parent (tasks (dephash_require_alloc p s) q) = parent (tasks s q)"
  by (simp_all add: dephash_require_alloc_def upd_task_def)




end
